theory Spec2Isabelle
  imports Main
begin

section \<open>The file access layer of CFITSIO (cfileio.c)\<close>

text \<open>
  A shallow embedding of \<^verbatim>\<open>cfileio.c\<close>: the driver registry, the parsers of the
  extended file name syntax, and the routines that open, reopen, create and close a
  FITS file.  C strings are \<open>string\<close>s (the characters before the terminating NUL), a
  pointer into a string is the suffix it points at, \<^verbatim>\<open>int\<close> values are \<open>int\<close>s, and every
  output parameter is passed in (its old contents) and returned (its new contents).
  A run of the C code that leaves defined behaviour (a write through a null pointer, an
  access outside an array) is the value \<open>Inl\<close> of a \<open>fault\<close>; every other run is
  \<open>Inr\<close> of what the function returns and writes.
\<close>

subsection \<open>Constants of the headers\<close>

text \<open>
  Modelled from the spec: the status codes are named by the specification (section 7)
  and by the source, and are declared as macros in \<^verbatim>\<open>fitsio.h\<close>, which is not part of
  the source at hand.  The numbers are the ones of that header; the development only
  uses that they are positive and pairwise different.
\<close>

definition FILE_NOT_OPENED :: int where "FILE_NOT_OPENED = 104"
definition FILE_NOT_CREATED :: int where "FILE_NOT_CREATED = 105"
definition END_OF_FILE :: int where "END_OF_FILE = 107"
definition FILE_NOT_CLOSED :: int where "FILE_NOT_CLOSED = 110"
definition MEMORY_ALLOCATION :: int where "MEMORY_ALLOCATION = 113"
definition BAD_FILEPTR :: int where "BAD_FILEPTR = 114"
definition NULL_INPUT_PTR :: int where "NULL_INPUT_PTR = 115"
definition BAD_URL_PREFIX :: int where "BAD_URL_PREFIX = 121"
definition TOO_MANY_DRIVERS :: int where "TOO_MANY_DRIVERS = 122"
definition NO_MATCHING_DRIVER :: int where "NO_MATCHING_DRIVER = 124"
definition URL_PARSE_ERROR :: int where "URL_PARSE_ERROR = 125"

text \<open>The two macros at the head of \<^verbatim>\<open>cfileio.c\<close>.\<close>

definition MAX_PREFIX_LEN :: nat where "MAX_PREFIX_LEN = 20"
definition MAX_DRIVERS :: int where "MAX_DRIVERS = 15"

subsection \<open>Undefined behaviour\<close>

datatype fault =
    Null_pointer_write      \<comment> \<open>a store through a pointer that is NULL\<close>
  | Null_pointer_read       \<comment> \<open>a load or a call through a pointer that is NULL\<close>
  | Out_of_bounds_write     \<comment> \<open>a store outside the array or block\<close>
  | Out_of_bounds_read      \<comment> \<open>a load outside the array or block\<close>
  | Dangling_pointer        \<comment> \<open>an access to a structure that is not allocated\<close>
  | Int_overflow            \<comment> \<open>a conversion whose result does not fit an \<^verbatim>\<open>int\<close>\<close>

subsection \<open>The driver table\<close>

text \<open>
  The function pointers of a driver act on the state \<open>'x\<close> of the world outside this
  file (disk files, memory files, sockets); a NULL pointer is \<open>None\<close>.  Every function
  returns its \<^verbatim>\<open>int\<close> result first, then what it writes through its output parameters,
  then the new outside state.
\<close>

record 'x driver_functions =
  init :: "('x \<Rightarrow> int \<times> 'x) option"
  shutdown :: "('x \<Rightarrow> int \<times> 'x) option"
  setoptions :: "(int \<Rightarrow> 'x \<Rightarrow> int \<times> 'x) option"
  getoptions :: "('x \<Rightarrow> (int \<times> int) \<times> 'x) option"
  getversion :: "('x \<Rightarrow> (int \<times> int) \<times> 'x) option"
  checkfile :: "(string \<Rightarrow> string \<Rightarrow> string \<Rightarrow> 'x \<Rightarrow> (int \<times> string \<times> string \<times> string) \<times> 'x) option"
  open_fn :: "(string \<Rightarrow> int \<Rightarrow> 'x \<Rightarrow> (int \<times> int) \<times> 'x) option"
  create :: "(string \<Rightarrow> 'x \<Rightarrow> (int \<times> int) \<times> 'x) option"
  truncate_fn :: "(int \<Rightarrow> int \<Rightarrow> 'x \<Rightarrow> int \<times> 'x) option"
  close :: "(int \<Rightarrow> 'x \<Rightarrow> int \<times> 'x) option"
  remove_fn :: "(string \<Rightarrow> 'x \<Rightarrow> int \<times> 'x) option"
  size_fn :: "(int \<Rightarrow> 'x \<Rightarrow> (int \<times> int) \<times> 'x) option"
  flush :: "(int \<Rightarrow> 'x \<Rightarrow> int \<times> 'x) option"
  seek :: "(int \<Rightarrow> int \<Rightarrow> 'x \<Rightarrow> int \<times> 'x) option"
  read :: "(int \<Rightarrow> int \<Rightarrow> 'x \<Rightarrow> (int \<times> char list) \<times> 'x) option"
  write_fn :: "(int \<Rightarrow> char list \<Rightarrow> 'x \<Rightarrow> int \<times> 'x) option"

record 'x fitsdriver = "'x driver_functions" +
  prefix :: string

text \<open>A table entry before any registration: the array is a zero-initialised global.\<close>

definition no_functions :: "'x driver_functions" where
  "no_functions =
     \<lparr>init = None, shutdown = None, setoptions = None, getoptions = None,
      getversion = None, checkfile = None, open_fn = None, create = None,
      truncate_fn = None, close = None, remove_fn = None, size_fn = None, flush = None,
      seek = None, read = None, write_fn = None\<rparr>"

definition zero_driver :: "'x fitsdriver" where
  "zero_driver = driver_functions.extend no_functions \<lparr>prefix = []\<rparr>"

subsection \<open>The structures of an open file\<close>

text \<open>
  \<^verbatim>\<open>FITSfile\<close> is the structure shared by all the handles of one open file, \<^verbatim>\<open>fitsfile\<close>
  the handle.  Both are declared in \<^verbatim>\<open>fitsio.h\<close>; the records have the fields this file
  assigns.  \<open>filename\<close> is the pointer to the memory of the name: \<open>None\<close> is NULL.
\<close>

record FITSfile =
  filehandle :: int
  driver :: int
  filename :: "string option"
  filesize :: int
  logfilesize :: int
  writemode :: int
  datastart :: int
  curbuf :: int
  open_count :: int
  validcode :: int

record fitsfile =
  Fptr :: nat
  HDUposition :: int

text \<open>
  What the code does to memory and to a driver's \<^verbatim>\<open>close\<close>, in the order it does it.
\<close>

datatype event =
    Driver_close int int    \<comment> \<open>driver number and driver handle of a call of \<^verbatim>\<open>close\<close>\<close>
  | Free_filename nat       \<comment> \<open>the name of the \<^verbatim>\<open>FITSfile\<close> at this address is freed\<close>
  | Poison_validcode nat    \<comment> \<open>its \<^verbatim>\<open>validcode\<close> is set to 0\<close>
  | Free_FITSfile nat       \<comment> \<open>the \<^verbatim>\<open>FITSfile\<close> at this address is freed\<close>
  | Free_fitsfile nat       \<comment> \<open>the \<^verbatim>\<open>fitsfile\<close> at this address is freed\<close>

text \<open>
  The state of the library: its three globals, the two kinds of structures on the heap
  (an address that is not allocated maps to \<open>None\<close>), the allocator, the log of events
  and the outside state.  \<open>alloc_script\<close> says which of the coming calls of
  \<^verbatim>\<open>malloc\<close> and \<^verbatim>\<open>calloc\<close> succeed; once it is used up, every call succeeds.
\<close>

record 'x world =
  need_to_initialize :: bool
  no_of_drivers :: int
  driverTable :: "'x fitsdriver list"
  FITSfiles :: "nat \<Rightarrow> FITSfile option"
  fitsfiles :: "nat \<Rightarrow> fitsfile option"
  next_address :: nat
  alloc_script :: "bool list"
  events :: "event list"
  extern :: 'x

text \<open>The state when the program starts.\<close>

definition initial_world :: "'x \<Rightarrow> 'x world" where
  "initial_world x =
     \<lparr>need_to_initialize = True, no_of_drivers = 0,
      driverTable = replicate (nat MAX_DRIVERS) zero_driver,
      FITSfiles = (\<lambda>_. None), fitsfiles = (\<lambda>_. None), next_address = 1,
      alloc_script = [], events = [], extern = x\<rparr>"

subsection \<open>Registering a driver and finding one\<close>

text \<open>
  \<^verbatim>\<open>fits_register_driver\<close>.  The prefix is copied with \<^verbatim>\<open>strncpy\<close> and cut after
  \<^verbatim>\<open>MAX_PREFIX_LEN - 1\<close> characters.
\<close>

definition fits_register_driver ::
  "string option \<Rightarrow> 'x driver_functions \<Rightarrow> 'x world \<Rightarrow> fault + (int \<times> 'x world)" where
  "fits_register_driver prefix_arg fns w =
     (if no_of_drivers w + 1 = MAX_DRIVERS then Inr (TOO_MANY_DRIVERS, w)
      else case prefix_arg of
        None \<Rightarrow> Inr (BAD_URL_PREFIX, w)
      | Some p \<Rightarrow>
          let (status, x) = (case init fns of None \<Rightarrow> (0, extern w) | Some f \<Rightarrow> f (extern w));
              w1 = w\<lparr>extern := x\<rparr>
          in if status \<noteq> 0 then Inr (status, w1)
             else if no_of_drivers w < 0 \<or> int (length (driverTable w)) \<le> no_of_drivers w
               then Inl Out_of_bounds_write
             else Inr (0, w1\<lparr>driverTable :=
                               (driverTable w)[nat (no_of_drivers w) :=
                                  driver_functions.extend fns
                                    \<lparr>prefix = take (MAX_PREFIX_LEN - 1) p\<rparr>],
                             no_of_drivers := no_of_drivers w + 1\<rparr>))"

text \<open>A sequence of registrations, with the status each call returns.\<close>

fun register_all ::
  "(string option \<times> 'x driver_functions) list \<Rightarrow> 'x world \<Rightarrow> fault + (int list \<times> 'x world)" where
  "register_all [] w = Inr ([], w)"
| "register_all (c # cs) w =
     (case fits_register_driver (fst c) (snd c) w of
        Inl f \<Rightarrow> Inl f
      | Inr (status, w1) \<Rightarrow>
          (case register_all cs w1 of
             Inl f \<Rightarrow> Inl f
           | Inr (statuses, w2) \<Rightarrow> Inr (status # statuses, w2)))"

text \<open>
  \<^verbatim>\<open>urltype2driver\<close>.  The loop runs \<open>ii\<close> from \<open>no_of_drivers - 1\<close> down to 0; the
  argument of \<open>urltype2driver_loop\<close> is \<open>ii + 1\<close>.  \<^verbatim>\<open>*driver\<close> is written on a match
  only: the second component is \<open>Some ii\<close> then, and \<open>None\<close> when it is left as it was.
\<close>

fun urltype2driver_loop :: "'x fitsdriver list \<Rightarrow> string \<Rightarrow> nat \<Rightarrow> fault + (int \<times> int option)" where
  "urltype2driver_loop tbl urltype 0 = Inr (NO_MATCHING_DRIVER, None)"
| "urltype2driver_loop tbl urltype (Suc ii) =
     (if length tbl \<le> ii then Inl Out_of_bounds_read
      else if prefix (tbl ! ii) = urltype then Inr (0, Some (int ii))
      else urltype2driver_loop tbl urltype ii)"

definition urltype2driver :: "string \<Rightarrow> 'x world \<Rightarrow> fault + (int \<times> int option)" where
  "urltype2driver urltype w = urltype2driver_loop (driverTable w) urltype (nat (no_of_drivers w))"

subsection \<open>Functions of the C library\<close>

text \<open>
  \<^verbatim>\<open>strchr\<close> and \<^verbatim>\<open>strstr\<close> return the offset of the first occurrence, \<open>None\<close> for
  the null pointer.  \<open>nth_char\<close> reads a character of a C string: at the index
  \<open>length s\<close> it finds the terminating NUL.
\<close>

fun strchr :: "string \<Rightarrow> char \<Rightarrow> nat option" where
  "strchr [] c = None"
| "strchr (x # xs) c = (if x = c then Some 0 else map_option Suc (strchr xs c))"

fun strstr :: "string \<Rightarrow> string \<Rightarrow> nat option" where
  "strstr [] pat = (if pat = [] then Some 0 else None)"
| "strstr (x # xs) pat =
     (if take (length pat) (x # xs) = pat then Some 0 else map_option Suc (strstr xs pat))"

definition nth_char :: "string \<Rightarrow> nat \<Rightarrow> char" where
  "nth_char s i = (if i < length s then s ! i else CHR 0x00)"

definition strcspn :: "string \<Rightarrow> string \<Rightarrow> nat" where
  "strcspn s reject = length (takeWhile (\<lambda>c. c \<notin> set reject) s)"

definition strspn :: "string \<Rightarrow> string \<Rightarrow> nat" where
  "strspn s accept = length (takeWhile (\<lambda>c. c \<in> set accept) s)"

definition isdigit :: "char \<Rightarrow> bool" where
  "isdigit c = (c \<in> set ''0123456789'')"

definition isspace :: "char \<Rightarrow> bool" where
  "isspace c = (c \<in> set [CHR '' '', CHR 0x09, CHR 0x0A, CHR 0x0B, CHR 0x0C, CHR 0x0D])"

definition tolower :: "char \<Rightarrow> char" where
  "tolower c =
     (case map_of (zip ''ABCDEFGHIJKLMNOPQRSTUVWXYZ'' ''abcdefghijklmnopqrstuvwxyz'') c of
        None \<Rightarrow> c
      | Some l \<Rightarrow> l)"

text \<open>
  \<^verbatim>\<open>sscanf(s, "%d", &n)\<close>: white space is skipped, then a sign may stand, then
  decimal digits.  \<open>None\<close> when there is no digit, so that nothing is converted and
  the call does not return 1.  An \<^verbatim>\<open>int\<close> has 32 bits; a number that does not fit it
  is \<^verbatim>\<open>Int_overflow\<close>.
\<close>

definition digit_value :: "char \<Rightarrow> nat" where
  "digit_value c = (case strchr ''0123456789'' c of None \<Rightarrow> 0 | Some k \<Rightarrow> k)"

definition decimal_value :: "string \<Rightarrow> nat" where
  "decimal_value ds = foldl (\<lambda>n c. 10 * n + digit_value c) 0 ds"

definition scan_int :: "string \<Rightarrow> (fault + int) option" where
  "scan_int s =
     (let s1 = dropWhile isspace s;
          negative = (take 1 s1 = ''-'');
          s2 = (if take 1 s1 = ''-'' \<or> take 1 s1 = ''+'' then drop 1 s1 else s1);
          ds = takeWhile isdigit s2;
          v = (if negative then - int (decimal_value ds) else int (decimal_value ds))
      in if ds = [] then None
         else if v < - 2147483648 \<or> 2147483647 < v then Some (Inl Int_overflow)
         else Some (Inr v))"

subsection \<open>Parsing the input file name: \<^verbatim>\<open>ffiurl\<close>\<close>

text \<open>
  The seven output strings of \<^verbatim>\<open>ffiurl\<close>.  A caller may pass NULL for any of them:
  \<open>None\<close> is a null pointer, \<open>Some s\<close> a buffer that holds \<open>s\<close>.  The buffers are the
  caller's; the model puts no bound on what is written to them.
\<close>

record url_parts =
  urltype :: "string option"
  infile :: "string option"
  outfile :: "string option"
  extspec :: "string option"
  rowfilter :: "string option"
  binspec :: "string option"
  colspec :: "string option"

text \<open>\<^verbatim>\<open>if (p) *p = '\0'\<close>, \<^verbatim>\<open>if (p) strcat(p, s)\<close> and \<^verbatim>\<open>if (p) strcpy(p, s)\<close>.\<close>

definition clear_string :: "string option \<Rightarrow> string option" where
  "clear_string p = map_option (\<lambda>_. []) p"

definition strcat_to :: "string option \<Rightarrow> string \<Rightarrow> string option" where
  "strcat_to p s = map_option (\<lambda>old. old @ s) p"

definition strcpy_to :: "string option \<Rightarrow> string \<Rightarrow> string option" where
  "strcpy_to p s = map_option (\<lambda>_. s) p"

text \<open>
  The block ``get urltype'': the type of the URL and the rest of the string, which
  \<^verbatim>\<open>ptr1\<close> points at afterwards.
\<close>

definition url_prefix :: "string \<Rightarrow> string \<times> string" where
  "url_prefix url =
     (if nth_char url 0 = CHR ''-'' then (''stdin://'', drop 1 url)
      else case strstr url ''://'' of
        Some k \<Rightarrow> (take (k + 3) url, drop (k + 3) url)
      | None \<Rightarrow>
          if take 4 url = ''ftp:'' then (''ftp://'', drop 4 url)
          else if take 5 url = ''http:'' then (''http://'', drop 5 url)
          else if take 4 url = ''mem:'' then (''mem://'', drop 4 url)
          else if take 6 url = ''shmem:'' then (''shmem://'', drop 6 url)
          else if take 5 url = ''file:'' then (''file://'', drop 5 url)
          else (''file://'', url))"

text \<open>
  The block ``get the input file name'', from what \<^verbatim>\<open>ptr1\<close> points at: the local
  \<^verbatim>\<open>infile\<close> and the text between the parentheses, if there is one.  \<open>None\<close> is the
  return with \<^verbatim>\<open>URL_PARSE_ERROR\<close> for a missing \<^verbatim>\<open>)\<close>.
\<close>

definition parenthesized :: "string \<Rightarrow> nat \<Rightarrow> (string \<times> string option) option" where
  "parenthesized p i =
     (case strchr (drop (Suc i) p) CHR '')'' of
        None \<Rightarrow> None
      | Some j \<Rightarrow> Some (take i p, Some (take j (drop (Suc i) p))))"

definition input_names :: "string \<Rightarrow> (string \<times> string option) option" where
  "input_names p =
     (let ptr2 = strchr p CHR ''(''; ptr3 = strchr p CHR ''[''
      in if ptr2 = None \<and> ptr3 = None then Some (p, None)
         else if ptr3 = None then parenthesized p (the ptr2)
         else if ptr2 \<noteq> None \<and> the ptr2 < the ptr3 then parenthesized p (the ptr2)
         else Some (take (the ptr3) p, None))"

text \<open>
  The loop that strips trailing blanks, \<^verbatim>\<open>for (ii = slen - 1; ii > 0; ii--)\<close>: a blank
  at \<open>ii\<close> is overwritten by NUL, which ends the string there.  The character at
  index 0 is never looked at.
\<close>

fun strip_blanks_from :: "string \<Rightarrow> nat \<Rightarrow> string" where
  "strip_blanks_from s 0 = s"
| "strip_blanks_from s (Suc ii) =
     (if s ! Suc ii = CHR '' '' then strip_blanks_from (take (Suc ii) s) ii else s)"

definition strip_trailing_blanks :: "string \<Rightarrow> string" where
  "strip_trailing_blanks s = strip_blanks_from s (length s - 1)"

text \<open>
  The loop \<^verbatim>\<open>for (ii = jj - 1; ii >= 0; ii--)\<close> that searches a character backwards;
  the argument is \<open>ii + 1\<close>, the result the final \<open>ii\<close>, which is \<open>-1\<close> when the
  character does not occur.
\<close>

fun search_backwards :: "char \<Rightarrow> string \<Rightarrow> nat \<Rightarrow> int" where
  "search_backwards c s 0 = - 1"
| "search_backwards c s (Suc ii) = (if s ! ii = c then int ii else search_backwards c s ii)"

text \<open>
  The rest of \<^verbatim>\<open>ffiurl\<close> after the file name is copied out: the extension in
  brackets and the filters.  \<open>rest\<close> is the string at \<^verbatim>\<open>ptr3\<close>, which starts with the
  first \<^verbatim>\<open>[\<close>.

  First the bracket that holds the extension: the local \<^verbatim>\<open>rowfilter\<close>, with its
  trailing blanks stripped, and the new \<^verbatim>\<open>extspec\<close>; \<open>None\<close> is the return with
  \<^verbatim>\<open>URL_PARSE_ERROR\<close> for a missing \<^verbatim>\<open>]\<close>.
\<close>

definition bracket_extension :: "bool \<Rightarrow> string \<Rightarrow> string option \<Rightarrow> (string \<times> string option) option" where
  "bracket_extension plus_ext rest ext =
     (if \<not> plus_ext then
        (case strchr (drop 1 rest) CHR '']'' of
           None \<Rightarrow> None
         | Some j \<Rightarrow>
             Some (strip_trailing_blanks (drop (Suc j) (drop 1 rest)),
                   strcat_to ext (take j (drop 1 rest))))
      else Some (strip_trailing_blanks rest, ext))"

text \<open>
  Where the binning specification starts in the filter: \<^verbatim>\<open>[bin\<close>, an optional type
  letter, then a blank or \<^verbatim>\<open>]\<close>.
\<close>

definition find_binspec :: "string \<Rightarrow> nat option" where
  "find_binspec rf =
     (case strstr rf ''[bin'' of
        None \<Rightarrow> None
      | Some b \<Rightarrow>
          let ptr2 = (if nth_char rf (b + 4) \<in> set ''bijrd'' then b + 5 else b + 4)
          in if nth_char rf ptr2 \<noteq> CHR '' '' \<and> nth_char rf ptr2 \<noteq> CHR '']'' then None
             else Some b)"

text \<open>
  A specification found at offset \<open>b\<close> of the filter is copied to its output string,
  cut at its \<^verbatim>\<open>]\<close>, and one trailing blank is deleted; then it is deleted from the
  filter.  The result is the new filter and the new output string.  When the output
  pointer is NULL the code does not test that there is a \<^verbatim>\<open>]\<close>, and copies from the
  address \<^verbatim>\<open>NULL + 1\<close> when there is none.
\<close>

definition cut_at_bracket :: "string \<Rightarrow> nat \<Rightarrow> string" where
  "cut_at_bracket s j =
     (if nth_char s (j - 1) = CHR '' '' then take (j - 1) s else take j s)"

definition extract_spec ::
  "string \<Rightarrow> nat \<Rightarrow> string option \<Rightarrow> fault + (string \<times> string option) option" where
  "extract_spec rf b spec =
     (case strchr (drop (Suc b) rf) CHR '']'' of
        None \<Rightarrow> (if spec = None then Inl Null_pointer_read else Inr None)
      | Some j \<Rightarrow>
          Inr (Some (take b rf @ drop (Suc j) (drop (Suc b) rf),
                     strcpy_to spec (cut_at_bracket (drop (Suc b) rf) j))))"

definition ffiurl_filters :: "string \<Rightarrow> url_parts \<Rightarrow> int \<Rightarrow> fault + (int \<times> url_parts)" where
  "ffiurl_filters rowfilter0 out status =
     (if rowfilter0 = [] then Inr (status, out)
      else
        let rf1 = map tolower rowfilter0 in
        case (case find_binspec rf1 of
                None \<Rightarrow> Inr (Some (rf1, binspec out))
              | Some b \<Rightarrow> extract_spec rf1 b (binspec out)) of
          Inl f \<Rightarrow> Inl f
        | Inr None \<Rightarrow> Inr (URL_PARSE_ERROR, out\<lparr>binspec := strcpy_to (binspec out) (drop 1 (drop (the (find_binspec rf1)) rf1))\<rparr>)
        | Inr (Some (rf2, bin)) \<Rightarrow>
            (case (case strstr rf2 ''[col'' of
                     None \<Rightarrow> Inr (Some (rf2, colspec out))
                   | Some c \<Rightarrow> extract_spec rf2 c (colspec out)) of
               Inl f \<Rightarrow> Inl f
             | Inr None \<Rightarrow> Inr (URL_PARSE_ERROR, out\<lparr>binspec := bin, colspec := strcpy_to (colspec out) (drop 1 (drop (the (strstr rf2 ''[col'')) rf2))\<rparr>)
             | Inr (Some (rf3, col)) \<Rightarrow>
                 Inr (status, out\<lparr>binspec := bin, colspec := col,
                                  rowfilter := strcpy_to (rowfilter out) rf3\<rparr>)))"

text \<open>
  The test of the \<open>filename+n\<close> convention, for the name and the index \<open>ii\<close> where
  the search for the last \<^verbatim>\<open>+\<close> ended: \<^verbatim>\<open>ii != 0 && (jj - ii) < 5\<close>, and all the
  characters behind \<open>ii\<close> are digits.
\<close>

definition plus_extension :: "string \<Rightarrow> int \<Rightarrow> bool" where
  "plus_extension name ii =
     (ii \<noteq> 0 \<and> int (length name) - ii < 5 \<and> list_all isdigit (drop (nat (ii + 1)) name))"

text \<open>
  \<^verbatim>\<open>ffiurl\<close>.  \<open>mem_ok\<close> says whether its \<^verbatim>\<open>malloc\<close> succeeds.  In the test of the
  \<open>filename+n\<close> convention, \<open>ii\<close> is \<open>-1\<close> when the name has no \<^verbatim>\<open>+\<close>; when the name is
  then shorter than 4 characters and all of them are digits, the code stores a NUL
  at \<^verbatim>\<open>infile[-1]\<close>, in front of the block it allocated.  After a \<open>+n\<close> is cut off, the
  bytes of the block up to the old length are a NUL and digits, so the search for the
  last \<^verbatim>\<open>/\<close> sees what a search in the shortened name sees.
\<close>

definition ffiurl :: "string \<Rightarrow> url_parts \<Rightarrow> bool \<Rightarrow> int \<Rightarrow> fault + (int \<times> url_parts)" where
  "ffiurl url out0 mem_ok status =
     (if status > 0 then Inr (status, out0)
      else
        let out1 = \<lparr>urltype = clear_string (urltype out0), infile = clear_string (infile out0),
                    outfile = clear_string (outfile out0), extspec = clear_string (extspec out0),
                    rowfilter = clear_string (rowfilter out0),
                    binspec = clear_string (binspec out0), colspec = clear_string (colspec out0)\<rparr>
        in
        if length url = 0 then Inr (status, out1)
        else if \<not> mem_ok then Inr (MEMORY_ALLOCATION, out1)
        else
          let ptr1 = snd (url_prefix url);
              out2 = out1\<lparr>urltype := strcat_to (urltype out1) (fst (url_prefix url))\<rparr>
          in
          case input_names ptr1 of
            None \<Rightarrow> Inr (URL_PARSE_ERROR, out2)
          | Some (name, between) \<Rightarrow>
              let out3 = out2\<lparr>outfile := map_option strip_trailing_blanks
                                 (case between of None \<Rightarrow> outfile out2
                                  | Some t \<Rightarrow> strcat_to (outfile out2) t)\<rparr>;
                  infile1 = strip_trailing_blanks name;
                  jj = length infile1;
                  ii = search_backwards CHR ''+'' infile1 jj;
                  plus_ext = plus_extension infile1 ii
              in
              if plus_ext \<and> ii < 0 then Inl Out_of_bounds_write
              else
                let infile2 = (if plus_ext then take (nat ii) infile1 else infile1);
                    out4 = (if plus_ext
                            then out3\<lparr>extspec := strcpy_to (extspec out3) (drop (nat (ii + 1)) infile1)\<rparr>
                            else out3);
                    slash = search_backwards CHR ''/'' infile2 (length infile2);
                    out5 = (if outfile out4 \<noteq> None \<and> nth_char (the (outfile out4)) 0 = CHR ''*''
                               \<and> 0 \<le> slash
                            then out4\<lparr>outfile := Some (drop (nat (slash + 1)) infile2)\<rparr>
                            else out4);
                    out6 = out5\<lparr>infile := strcpy_to (infile out5) infile2\<rparr>
                in
                case strchr ptr1 CHR ''['' of
                  None \<Rightarrow> Inr (status, out6)
                | Some k \<Rightarrow>
                    (case bracket_extension plus_ext (drop k ptr1) (extspec out6) of
                       None \<Rightarrow> Inr (URL_PARSE_ERROR, out6)
                     | Some (rowfilter0, ext) \<Rightarrow>
                         ffiurl_filters rowfilter0 (out6\<lparr>extspec := ext\<rparr>) status))"

subsection \<open>Parsing the output file name: \<^verbatim>\<open>ffourl\<close>\<close>

text \<open>The two output strings are passed as a pair, type first.\<close>

definition ffourl :: "string \<Rightarrow> string \<times> string \<Rightarrow> int \<Rightarrow> int \<times> string \<times> string" where
  "ffourl url out0 status =
     (if status > 0 then (status, out0)
      else if nth_char url 0 = CHR ''-'' then (status, ''stdout://'', [])
      else case strstr url ''://'' of
        Some k \<Rightarrow> (status, take (k + 3) url, drop (k + 3) url)
      | None \<Rightarrow> (status, ''file://'', url))"

subsection \<open>Parsing the extension specification: \<^verbatim>\<open>ffexts\<close>\<close>

text \<open>
  Modelled from the spec: the kinds of HDU (\<open>Any\<close>, \<open>Image\<close>, \<open>AsciiTable\<close>,
  \<open>BinaryTable\<close> in section 3 of the specification) are macros of \<^verbatim>\<open>fitsio.h\<close>, which
  is not part of the source at hand; the numbers are the ones of that header.
\<close>

definition ANY_HDU :: int where "ANY_HDU = - 1"
definition IMAGE_HDU :: int where "IMAGE_HDU = 0"
definition ASCII_TBL :: int where "ASCII_TBL = 1"
definition BINARY_TBL :: int where "BINARY_TBL = 2"

record extension =
  extnum :: int
  extname :: string
  extvers :: int
  hdutype :: int

definition hdu_letter :: "char \<Rightarrow> int option" where
  "hdu_letter c =
     (if c = CHR ''b'' \<or> c = CHR ''B'' then Some BINARY_TBL
      else if c = CHR ''t'' \<or> c = CHR ''T'' \<or> c = CHR ''a'' \<or> c = CHR ''A'' then Some ASCII_TBL
      else if c = CHR ''i'' \<or> c = CHR ''I'' then Some IMAGE_HDU
      else None)"

text \<open>
  \<^verbatim>\<open>ffexts\<close> sets its four outputs to their defaults before it looks at the status.
  In the first branch the string starts with a digit, so \<^verbatim>\<open>sscanf\<close> converts a number.
\<close>

definition ffexts :: "string \<Rightarrow> int \<Rightarrow> fault + (int \<times> extension)" where
  "ffexts spec status =
     (let out0 = \<lparr>extnum = 0, extname = [], extvers = 0, hdutype = ANY_HDU\<rparr> in
      if status > 0 then Inr (status, out0)
      else
        let ptr1 = dropWhile (\<lambda>c. c = CHR '' '') spec in
        if isdigit (nth_char ptr1 0) then
          (case scan_int ptr1 of
             None \<Rightarrow> Inr (status, out0)
           | Some (Inl f) \<Rightarrow> Inl f
           | Some (Inr n) \<Rightarrow>
               if n < 0 \<or> n > 9999 then Inr (URL_PARSE_ERROR, out0\<lparr>extnum := 0\<rparr>)
               else Inr (status, out0\<lparr>extnum := n\<rparr>))
        else
          let out1 = out0\<lparr>extname := take (strcspn ptr1 '' ,:'') ptr1\<rparr>;
              ptr2 = drop (strcspn ptr1 '' ,:'') ptr1;
              ptr3 = drop (strspn ptr2 '' ,:'') ptr2;
              slen = strcspn ptr3 '' ,:''
          in
          if slen = 0 then Inr (status, out1)
          else
            (case scan_int ptr3 of
               None \<Rightarrow> Inr (URL_PARSE_ERROR, out1)
             | Some (Inl f) \<Rightarrow> Inl f
             | Some (Inr v) \<Rightarrow>
                 let out2 = out1\<lparr>extvers := v\<rparr>;
                     ptr4 = drop slen ptr3;
                     ptr5 = drop (strspn ptr4 '' ,:'') ptr4
                 in
                 if length ptr5 = 0 then Inr (status, out2)
                 else
                   (case hdu_letter (nth_char ptr5 0) of
                      None \<Rightarrow> Inr (URL_PARSE_ERROR, out2)
                    | Some t \<Rightarrow> Inr (status, out2\<lparr>hdutype := t\<rparr>))))"

subsection \<open>Parsing the binning specification: \<^verbatim>\<open>ffbins\<close>\<close>

text \<open>
  \<^verbatim>\<open>fits_get_token\<close>: the length of the token, the new \<^verbatim>\<open>*ptr\<close>, the token and the new
  \<^verbatim>\<open>*isanumber\<close>, which is written only when the token is not empty.
\<close>

definition fits_get_token :: "string \<Rightarrow> string \<Rightarrow> bool \<Rightarrow> nat \<times> string \<times> string \<times> bool" where
  "fits_get_token ptr delimiter isanumber =
     (let p = dropWhile (\<lambda>c. c = CHR '' '') ptr;
          slen = strcspn p delimiter
      in if slen \<noteq> 0
         then (slen, drop slen p, take slen p,
               list_all (\<lambda>c. isdigit c \<or> c = CHR ''.'' \<or> c = CHR ''-'') (take slen p))
         else (slen, p, [], isanumber))"

text \<open>
  The values of type \<^verbatim>\<open>double\<close> are of a type \<open>'d\<close> that the model does not look
  into: \<^verbatim>\<open>strtod\<close>, the constant \<^verbatim>\<open>1.\<close> and the two macros for undefined values come
  as parameters.

  Modelled from the spec: \<^verbatim>\<open>DOUBLENULLVALUE\<close> and \<^verbatim>\<open>FLOATNULLVALUE\<close> (the sentinel
  \<open>UNDEFINED\<close> of section 3 of the specification for a numeric field that is not set)
  are macros of \<^verbatim>\<open>fitsio2.h\<close>, which is not part of the source at hand.  They are
  parameters here, and \<^verbatim>\<open>==\<close> on them and on the results of \<^verbatim>\<open>strtod\<close> is equality.
\<close>

record 'd floating =
  strtod :: "string \<Rightarrow> 'd"
  one :: 'd
  DOUBLENULLVALUE :: 'd
  FLOATNULLVALUE :: 'd

text \<open>
  What \<^verbatim>\<open>ffbinr\<close> writes for one axis.  Its local \<^verbatim>\<open>isanumber\<close> is not initialised, and
  is read before it is written when the first token is empty; \<open>junk\<close> is the value
  it has then.
\<close>

record 'd binrange =
  r_colname :: string
  r_minin :: 'd
  r_maxin :: 'd
  r_binsizein :: 'd
  r_minname :: string
  r_maxname :: string
  r_binname :: string

definition column_name :: "string \<Rightarrow> string" where
  "column_name token =
     (if nth_char token 0 = CHR ''#'' \<and> isdigit (nth_char token 1) then drop 1 token else token)"

definition ffbinr ::
  "(string \<Rightarrow> 'd) \<Rightarrow> string \<Rightarrow> 'd binrange \<Rightarrow> bool \<Rightarrow> int \<Rightarrow> int \<times> string \<times> 'd binrange" where
  "ffbinr str_to_d ptr r junk status =
     (if status > 0 then (status, ptr, r)
      else
        let (slen, ptr1, token, isanumber) = fits_get_token ptr '' ,=:;'' junk in
        if slen = 0 \<and> (nth_char ptr1 0 = CHR 0x00 \<or> nth_char ptr1 0 = CHR '','' \<or>
                         nth_char ptr1 0 = CHR '';'')
        then (status, ptr1, r)
        else
          let is_name = (\<not> isanumber \<and> nth_char ptr1 0 \<noteq> CHR '':'');
              r1 = (if is_name then r\<lparr>r_colname := column_name token\<rparr> else r)
          in
          if is_name \<and> nth_char ptr1 0 \<noteq> CHR ''='' then (status, ptr1, r1)
          else
            let (slen2, ptr2, token2, isanumber2) =
                  (if is_name then fits_get_token (drop 1 ptr1) '' ,:;'' isanumber
                   else (slen, ptr1, token, isanumber))
            in
            if nth_char ptr2 0 \<noteq> CHR '':''
            then (status, ptr2,
                  if \<not> isanumber2 then r1\<lparr>r_binname := token2\<rparr>
                  else r1\<lparr>r_binsizein := str_to_d token2\<rparr>)
            else
              let r2 = (if slen2 = 0 then r1
                        else if \<not> isanumber2 then r1\<lparr>r_minname := token2\<rparr>
                        else r1\<lparr>r_minin := str_to_d token2\<rparr>);
                  (slen3, ptr3, token3, isanumber3) =
                     fits_get_token (drop 1 ptr2) '' ,:;'' isanumber2;
                  r3 = (if slen3 = 0 then r2
                        else if \<not> isanumber3 then r2\<lparr>r_maxname := token3\<rparr>
                        else r2\<lparr>r_maxin := str_to_d token3\<rparr>)
              in
              if nth_char ptr3 0 \<noteq> CHR '':'' then (status, ptr3, r3)
              else
                let (slen4, ptr4, token4, isanumber4) =
                       fits_get_token (drop 1 ptr3) '' ,:;'' isanumber3;
                    r4 = (if slen4 = 0 then r3
                          else if \<not> isanumber4 then r3\<lparr>r_binname := token4\<rparr>
                          else r3\<lparr>r_binsizein := str_to_d token4\<rparr>)
                in (status, ptr4, r4))"

text \<open>
  Modelled from the spec: the pixel kinds (\<open>i8\<close>, \<open>i16\<close>, \<open>i32\<close>, \<open>f32\<close>, \<open>f64\<close> in
  section 3 of the specification) are the data type macros of \<^verbatim>\<open>fitsio.h\<close>, which is
  not part of the source at hand; the numbers are the ones of that header.
\<close>

definition TBYTE :: int where "TBYTE = 11"
definition TSHORT :: int where "TSHORT = 21"
definition TINT :: int where "TINT = 31"
definition TFLOAT :: int where "TFLOAT = 42"
definition TDOUBLE :: int where "TDOUBLE = 82"

text \<open>The outputs of \<^verbatim>\<open>ffbins\<close>; the arrays have four elements.\<close>

record 'd binning =
  imagetype :: int
  haxis :: int
  colname :: "string list"
  minin :: "'d list"
  maxin :: "'d list"
  binsizein :: "'d list"
  minname :: "string list"
  maxname :: "string list"
  binname :: "string list"
  weight :: 'd
  wtname :: string
  recip :: int

definition axis_of :: "'d binning \<Rightarrow> nat \<Rightarrow> 'd binrange" where
  "axis_of b ii =
     \<lparr>r_colname = colname b ! ii, r_minin = minin b ! ii, r_maxin = maxin b ! ii,
      r_binsizein = binsizein b ! ii, r_minname = minname b ! ii,
      r_maxname = maxname b ! ii, r_binname = binname b ! ii\<rparr>"

definition set_axis :: "'d binning \<Rightarrow> nat \<Rightarrow> 'd binrange \<Rightarrow> 'd binning" where
  "set_axis b ii r =
     b\<lparr>colname := (colname b)[ii := r_colname r], minin := (minin b)[ii := r_minin r],
       maxin := (maxin b)[ii := r_maxin r], binsizein := (binsizein b)[ii := r_binsizein r],
       minname := (minname b)[ii := r_minname r], maxname := (maxname b)[ii := r_maxname r],
       binname := (binname b)[ii := r_binname r]\<rparr>"

definition skip_blanks :: "string \<Rightarrow> string" where
  "skip_blanks ptr = dropWhile (\<lambda>c. c = CHR '' '') ptr"

text \<open>
  The loop over the column names in parentheses, \<^verbatim>\<open>for (ii = 0; ii < 4; ii++)\<close>; the
  first argument counts the rounds that are left.  The result is the final \<open>ii\<close>
  (4 when no \<^verbatim>\<open>)\<close> was found), the pointer and the names.  Each round starts with
  \<^verbatim>\<open>ptr++\<close>; at the end of the string this steps over the terminating NUL.
\<close>

fun names_loop :: "nat \<Rightarrow> nat \<Rightarrow> string \<Rightarrow> string list \<Rightarrow> fault + (nat \<times> string \<times> string list)" where
  "names_loop 0 ii ptr cols = Inr (ii, ptr, cols)"
| "names_loop (Suc n) ii ptr cols =
     (if ptr = [] then Inl Out_of_bounds_read
      else
        let p1 = skip_blanks (drop 1 ptr);
            slen = strcspn p1 '' ,)'';
            cols1 = cols[ii := cols ! ii @ take slen p1];
            p2 = skip_blanks (drop slen p1)
        in if nth_char p2 0 = CHR '')'' then Inr (ii, p2, cols1)
           else names_loop n (Suc ii) p2 cols1)"

text \<open>
  The loop over the axes, \<^verbatim>\<open>for (ii = 0; ii < 4; ii++)\<close>.  The result is \<open>Inl\<close> of the
  status at a \<^verbatim>\<open>return\<close> inside the loop, or \<open>Inr\<close> of the final \<open>ii\<close>, which is 4
  when the loop ran to its end.
\<close>

fun axes_loop ::
  "'d floating \<Rightarrow> (nat \<Rightarrow> bool) \<Rightarrow> nat \<Rightarrow> nat \<Rightarrow> string \<Rightarrow> 'd binning \<Rightarrow> int \<Rightarrow>
     (int + nat) \<times> string \<times> 'd binning" where
  "axes_loop fp junk 0 ii ptr b status = (Inr ii, ptr, b)"
| "axes_loop fp junk (Suc n) ii ptr b status =
     (let (st, ptr1, r) = ffbinr (strtod fp) ptr (axis_of b ii) (junk ii) status;
          b1 = set_axis b ii r
      in
      if st > 0 then (Inl st, ptr1, b1)
      else if nth_char ptr1 0 = CHR 0x00 \<or> nth_char ptr1 0 = CHR '';'' then (Inr ii, ptr1, b1)
      else if nth_char ptr1 0 = CHR '' '' then
        (let ptr2 = skip_blanks ptr1 in
         if nth_char ptr2 0 = CHR 0x00 \<or> nth_char ptr2 0 = CHR '';'' then (Inr ii, ptr2, b1)
         else axes_loop fp junk n (Suc ii)
                (if nth_char ptr2 0 = CHR '','' then drop 1 ptr2 else ptr2) b1 status)
      else if nth_char ptr1 0 = CHR '','' then axes_loop fp junk n (Suc ii) (drop 1 ptr1) b1 status
      else (Inl URL_PARSE_ERROR, ptr1, b1))"

text \<open>
  The loop \<^verbatim>\<open>for (ii = 1; ii < *haxis; ii++)\<close> that copies the range of the first axis
  to the other ones.
\<close>

definition copy_first_axis :: "'d binning \<Rightarrow> 'd binning" where
  "copy_first_axis b =
     foldl (\<lambda>b ii. set_axis b ii ((axis_of b 0)\<lparr>r_colname := colname b ! ii\<rparr>)) b
       [1 ..< nat (haxis b)]"

text \<open>
  From the label \<^verbatim>\<open>getweight\<close> to the end.  The assignment \<^verbatim>\<open>recip = 0\<close> makes the
  local pointer NULL, so that \<^verbatim>\<open>*recip = 1\<close> after a \<^verbatim>\<open>/\<close> is a store through a null
  pointer.  The call of \<^verbatim>\<open>ffbinr\<close> gets the name and the value of the weight where it
  puts the name of a column and the size of a bin; its other outputs are dropped.
\<close>

definition getweight ::
  "'d floating \<Rightarrow> bool \<Rightarrow> string \<Rightarrow> 'd binning \<Rightarrow> int \<Rightarrow> fault + (int \<times> 'd binning)" where
  "getweight fp junk ptr b status =
     (if nth_char ptr 0 = CHR '';'' then
        (let ptr1 = skip_blanks (drop 1 ptr) in
         if nth_char ptr1 0 = CHR ''/'' then Inl Null_pointer_write
         else
           let (st, ptr2, r) =
                 ffbinr (strtod fp) ptr1
                   \<lparr>r_colname = wtname b, r_minin = weight b, r_maxin = weight b,
                    r_binsizein = weight b, r_minname = [], r_maxname = [], r_binname = []\<rparr>
                   junk status;
               b1 = b\<lparr>wtname := r_colname r, weight := r_binsizein r\<rparr>
           in if st > 0 then Inr (st, b1)
              else if nth_char (skip_blanks ptr2) 0 \<noteq> CHR 0x00 then Inr (URL_PARSE_ERROR, b1)
              else Inr (st, b1))
      else if nth_char (skip_blanks ptr) 0 \<noteq> CHR 0x00 then Inr (URL_PARSE_ERROR, b)
      else Inr (status, b))"

text \<open>
  \<^verbatim>\<open>ffbins\<close>.  \<open>junk ii\<close> is the value of the uninitialised local of the call of
  \<^verbatim>\<open>ffbinr\<close> for axis \<open>ii\<close>, \<open>junk 4\<close> the one of the call for the weight.  The string is
  taken to start with \<open>bin\<close>: \<^verbatim>\<open>ptr = binspec + 3\<close> is outside a shorter string.
\<close>

definition ffbins ::
  "'d floating \<Rightarrow> string \<Rightarrow> 'd binning \<Rightarrow> (nat \<Rightarrow> bool) \<Rightarrow> int \<Rightarrow> fault + (int \<times> 'd binning)" where
  "ffbins fp spec out0 junk status =
     (if status > 0 then Inr (status, out0)
      else
        let b0 = \<lparr>imagetype = TINT, haxis = 2, colname = replicate 4 [],
                  minin = replicate 4 (DOUBLENULLVALUE fp),
                  maxin = replicate 4 (DOUBLENULLVALUE fp),
                  binsizein = replicate 4 (DOUBLENULLVALUE fp),
                  minname = replicate 4 [], maxname = replicate 4 [],
                  binname = replicate 4 [], weight = one fp, wtname = [], recip = 0\<rparr>
        in
        if length spec < 3 then Inl Out_of_bounds_read
        else
          let c = nth_char spec 3;
              b1 = (if c = CHR ''i'' then b0\<lparr>imagetype := TSHORT\<rparr>
                    else if c = CHR ''j'' then b0
                    else if c = CHR ''r'' then b0\<lparr>imagetype := TFLOAT\<rparr>
                    else if c = CHR ''d'' then b0\<lparr>imagetype := TDOUBLE\<rparr>
                    else if c = CHR ''b'' then b0\<lparr>imagetype := TBYTE\<rparr>
                    else b0);
              ptr = (if c \<in> set ''ijrdb'' then drop 4 spec else drop 3 spec)
          in
          if nth_char ptr 0 = CHR 0x00 then Inr (status, b1)
          else if nth_char ptr 0 \<noteq> CHR '' '' then Inr (URL_PARSE_ERROR, b1)
          else
            let ptr1 = skip_blanks ptr in
            if nth_char ptr1 0 = CHR 0x00 then Inr (status, b1)
            else if nth_char ptr1 0 = CHR ''('' then
              (case names_loop 4 0 ptr1 (colname b1) of
                 Inl f \<Rightarrow> Inl f
               | Inr (ii, ptr2, cols) \<Rightarrow>
                   let b2 = b1\<lparr>colname := cols\<rparr> in
                   if ii = 4 then Inr (URL_PARSE_ERROR, b2)
                   else
                     let b3 = b2\<lparr>haxis := int ii + 1\<rparr>;
                         ptr3 = skip_blanks (drop 1 ptr2)
                     in
                     if nth_char ptr3 0 = CHR 0x00 then Inr (status, b3)
                     else if nth_char ptr3 0 \<noteq> CHR ''='' then Inr (URL_PARSE_ERROR, b3)
                     else
                       let (st, ptr4, r) =
                             ffbinr (strtod fp) (skip_blanks (drop 1 ptr3)) (axis_of b3 0)
                               (junk 0) status;
                           b4 = set_axis b3 0 (r\<lparr>r_colname := colname b3 ! 0\<rparr>)
                       in
                       if st > 0 then Inr (st, b4)
                       else
                         let b5 = copy_first_axis b4; ptr5 = skip_blanks ptr4 in
                         if nth_char ptr5 0 = CHR '';'' then getweight fp (junk 4) ptr5 b5 st
                         else if nth_char ptr5 0 \<noteq> CHR 0x00 then Inr (URL_PARSE_ERROR, b5)
                         else Inr (st, b5))
            else
              (case axes_loop fp junk 4 0 ptr1 b1 status of
                 (Inl st, ptr2, b2) \<Rightarrow> Inr (st, b2)
               | (Inr ii, ptr2, b2) \<Rightarrow>
                   if ii = 4 then Inr (URL_PARSE_ERROR, b2)
                   else
                     let b3 = b2\<lparr>haxis := int ii + 1\<rparr>;
                         b4 = (if haxis b3 = 1 \<and> colname b3 ! 0 = [] \<and>
                                  minin b3 ! 0 = FLOATNULLVALUE fp \<and>
                                  maxin b3 ! 0 = FLOATNULLVALUE fp
                               then b3\<lparr>haxis := 2,
                                       binsizein := (binsizein b3)[1 := binsizein b3 ! 0]\<rparr>
                               else b3)
                     in getweight fp (junk 4) ptr2 b4 status))"

subsection \<open>The collaborators outside this file\<close>

text \<open>
  Modelled from the spec: the magic value of a valid structure and the other macros
  below are declared in \<^verbatim>\<open>fitsio.h\<close> and \<^verbatim>\<open>fitsio2.h\<close>, which are not part of the
  source at hand; the numbers are the ones of those headers.
\<close>

definition VALIDSTRUC :: int where "VALIDSTRUC = 555"
definition DATA_UNDEFINED :: int where "DATA_UNDEFINED = - 1"
definition READONLY :: int where "READONLY = 0"
definition REPORT_EOF :: int where "REPORT_EOF = 0"
definition IGNORE_EOF :: int where "IGNORE_EOF = 1"
definition TRUE :: int where "TRUE = 1"

text \<open>
  The routines of the other files of the library that this file calls (the record
  buffers, the HDU navigation, the row filter, the histogram), as parameters.  Each
  one gets the state to read, its arguments (a pointer to a \<^verbatim>\<open>fitsfile\<close> is its
  address) and the status, and returns the status and the new outside state: what
  these routines keep in the structures of a file belongs to the outside state, and
  they do not write the fields of the records above.  \<^verbatim>\<open>ffhist\<close> replaces the handle
  it is given, so it returns the new handle and a new state as a whole.  The long names
  of the source (\<^verbatim>\<open>fits_movabs_hdu\<close> for \<^verbatim>\<open>ffmahd\<close>, \<^verbatim>\<open>fits_get_hdu_num\<close> for \<^verbatim>\<open>ffghdn\<close>,
  \<^verbatim>\<open>fits_copy_hdu\<close> for \<^verbatim>\<open>ffcopy\<close>, \<^verbatim>\<open>fits_copy_header\<close> for \<^verbatim>\<open>ffcphd\<close>,
  \<^verbatim>\<open>fits_modify_key_lng\<close> for \<^verbatim>\<open>ffmkyj\<close>, \<^verbatim>\<open>fits_select_rows\<close> for \<^verbatim>\<open>ffsrow\<close>) are macros
  for the short ones.  The messages of \<^verbatim>\<open>ffpmsg\<close> go to the error stack of another
  file and are left out.

  \<open>NIOBUF\<close> and \<open>FLEN_FILENAME\<close> are macros of \<^verbatim>\<open>fitsio2.h\<close> and \<^verbatim>\<open>fitsio.h\<close>: the number
  of the record buffers, and the size in bytes of the arrays that hold a file name.
  \<open>standard_drivers\<close> are the registrations of \<^verbatim>\<open>fits_init_cfitsio\<close> that are
  compiled in, in their order, each with the functions of its driver;
  \<open>byte_order_ok\<close> is the outcome of its test of the byte order.
\<close>

record ('x, 'd) collaborators =
  NIOBUF :: nat
  FLEN_FILENAME :: nat
  byte_order_ok :: bool
  standard_drivers :: "(string \<times> 'x driver_functions) list"
  floating_point :: "'d floating"
  uninitialised :: "nat \<Rightarrow> bool"
  ffcurbuf :: "'x world \<Rightarrow> nat \<Rightarrow> nat option"
  ffldrc :: "'x world \<Rightarrow> nat \<Rightarrow> int \<Rightarrow> int \<Rightarrow> int \<Rightarrow> int \<times> 'x"
  ffrhdu :: "'x world \<Rightarrow> nat \<Rightarrow> int \<Rightarrow> int \<times> 'x"
  ffmahd :: "'x world \<Rightarrow> nat \<Rightarrow> int \<Rightarrow> int \<Rightarrow> int \<times> 'x"
  ffmnhd :: "'x world \<Rightarrow> nat \<Rightarrow> int \<Rightarrow> string \<Rightarrow> int \<Rightarrow> int \<Rightarrow> int \<times> 'x"
  ffghdn :: "'x world \<Rightarrow> nat \<Rightarrow> int"
  ffcopy :: "'x world \<Rightarrow> nat \<Rightarrow> nat \<Rightarrow> int \<Rightarrow> int \<Rightarrow> int \<times> 'x"
  ffcphd :: "'x world \<Rightarrow> nat \<Rightarrow> nat \<Rightarrow> int \<Rightarrow> int \<times> 'x"
  ffmkyj :: "'x world \<Rightarrow> nat \<Rightarrow> string \<Rightarrow> int \<Rightarrow> int \<Rightarrow> int \<times> 'x"
  ffrdef :: "'x world \<Rightarrow> nat \<Rightarrow> int \<Rightarrow> int \<times> 'x"
  ffsrow :: "'x world \<Rightarrow> nat \<Rightarrow> nat \<Rightarrow> string \<Rightarrow> int \<Rightarrow> int \<times> 'x"
  ffchdu :: "'x world \<Rightarrow> nat \<Rightarrow> int \<Rightarrow> int \<times> 'x"
  ffflsh :: "'x world \<Rightarrow> nat \<Rightarrow> int \<Rightarrow> int \<Rightarrow> int \<times> 'x"
  ffhist :: "'x world \<Rightarrow> nat option \<Rightarrow> 'd binning \<Rightarrow> int \<Rightarrow> (int \<times> nat option) \<times> 'x world"

text \<open>A call of a collaborator: the status it returns and the state with its effect.\<close>

definition outside :: "'x world \<Rightarrow> int \<times> 'x \<Rightarrow> int \<times> 'x world" where
  "outside w r = (fst r, w\<lparr>extern := snd r\<rparr>)"

subsection \<open>Memory\<close>

text \<open>
  \<^verbatim>\<open>malloc\<close> and \<^verbatim>\<open>calloc\<close>: whether the next call succeeds, the state after a call, and
  the address a successful call returns.  Address 0 is the null pointer.
\<close>

definition alloc_succeeds :: "'x world \<Rightarrow> bool" where
  "alloc_succeeds w = (case alloc_script w of [] \<Rightarrow> True | b # _ \<Rightarrow> b)"

definition alloc_done :: "'x world \<Rightarrow> 'x world" where
  "alloc_done w = w\<lparr>alloc_script := tl (alloc_script w)\<rparr>"

definition calloc_fitsfile :: "'x world \<Rightarrow> nat option \<times> 'x world" where
  "calloc_fitsfile w =
     (if alloc_succeeds w
      then (Some (next_address w),
            (alloc_done w)\<lparr>fitsfiles := (fitsfiles w)(next_address w \<mapsto> \<lparr>Fptr = 0, HDUposition = 0\<rparr>),
                            next_address := Suc (next_address w)\<rparr>)
      else (None, alloc_done w))"

definition zero_FITSfile :: FITSfile where
  "zero_FITSfile =
     \<lparr>filehandle = 0, driver = 0, filename = None, filesize = 0, logfilesize = 0,
      writemode = 0, datastart = 0, curbuf = 0, open_count = 0, validcode = 0\<rparr>"

definition calloc_FITSfile :: "'x world \<Rightarrow> nat option \<times> 'x world" where
  "calloc_FITSfile w =
     (if alloc_succeeds w
      then (Some (next_address w),
            (alloc_done w)\<lparr>FITSfiles := (FITSfiles w)(next_address w \<mapsto> zero_FITSfile),
                            next_address := Suc (next_address w)\<rparr>)
      else (None, alloc_done w))"

definition free_fitsfile :: "nat \<Rightarrow> 'x world \<Rightarrow> 'x world" where
  "free_fitsfile h w =
     w\<lparr>fitsfiles := (fitsfiles w)(h := None), events := events w @ [Free_fitsfile h]\<rparr>"

definition free_FITSfile :: "nat \<Rightarrow> 'x world \<Rightarrow> 'x world" where
  "free_FITSfile a w =
     w\<lparr>FITSfiles := (FITSfiles w)(a := None), events := events w @ [Free_FITSfile a]\<rparr>"

text \<open>What \<^verbatim>\<open>fptr->Fptr\<close> is for the handle at an address, and the structure there.\<close>

definition shared_file :: "'x world \<Rightarrow> nat \<Rightarrow> fault + (nat \<times> FITSfile)" where
  "shared_file w h =
     (case fitsfiles w h of
        None \<Rightarrow> Inl Dangling_pointer
      | Some hs \<Rightarrow>
          (case FITSfiles w (Fptr hs) of
             None \<Rightarrow> Inl Dangling_pointer
           | Some F \<Rightarrow> Inr (Fptr hs, F)))"

text \<open>
  A call \<^verbatim>\<open>(*driverTable[driver].close)(handle)\<close>: the result of the function and the
  state after it.
\<close>

definition driver_close :: "int \<Rightarrow> int \<Rightarrow> 'x world \<Rightarrow> fault + (int \<times> 'x world)" where
  "driver_close d handle w =
     (if d < 0 \<or> int (length (driverTable w)) \<le> d then Inl Out_of_bounds_read
      else case close (driverTable w ! nat d) of
        None \<Rightarrow> Inl Null_pointer_read
      | Some f \<Rightarrow>
          Inr (fst (f handle (extern w)),
               w\<lparr>extern := snd (f handle (extern w)),
                 events := events w @ [Driver_close d handle]\<rparr>))"

subsection \<open>Initialising the library: \<^verbatim>\<open>fits_init_cfitsio\<close>\<close>

fun register_standard ::
  "(string \<times> 'x driver_functions) list \<Rightarrow> 'x world \<Rightarrow> fault + (int \<times> 'x world)" where
  "register_standard [] w = Inr (0, w)"
| "register_standard (d # ds) w =
     (case fits_register_driver (Some (fst d)) (snd d) w of
        Inl f \<Rightarrow> Inl f
      | Inr (status, w1) \<Rightarrow>
          if status \<noteq> 0 then Inr (status, w1) else register_standard ds w1)"

definition fits_init_cfitsio :: "('x, 'd) collaborators \<Rightarrow> 'x world \<Rightarrow> fault + (int \<times> 'x world)" where
  "fits_init_cfitsio env w =
     (if \<not> byte_order_ok env then Inr (1, w\<lparr>need_to_initialize := False\<rparr>)
      else register_standard (standard_drivers env) (w\<lparr>need_to_initialize := False\<rparr>))"

subsection \<open>Closing a file: \<^verbatim>\<open>ffclos\<close>\<close>

text \<open>
  The pointer \<^verbatim>\<open>fptr\<close> is \<open>None\<close> when it is NULL.  The function does not look at the
  status before it works.
\<close>

definition ffclos ::
  "('x, 'd) collaborators \<Rightarrow> nat option \<Rightarrow> int \<Rightarrow> 'x world \<Rightarrow> fault + (int \<times> 'x world)" where
  "ffclos env fptr status w =
     (case fptr of
        None \<Rightarrow> Inr (NULL_INPUT_PTR, w)
      | Some h \<Rightarrow>
          (case shared_file w h of
             Inl f \<Rightarrow> Inl f
           | Inr (a, F) \<Rightarrow>
               if validcode F \<noteq> VALIDSTRUC then Inr (BAD_FILEPTR, w)
               else
                 let (st1, w1) = outside w (ffchdu env w h status);
                     (st2, w2) = outside w1 (ffflsh env w1 h TRUE st1);
                     w3 = w2\<lparr>FITSfiles := (FITSfiles w2)(a \<mapsto> F\<lparr>open_count := open_count F - 1\<rparr>)\<rparr>
                 in
                 if open_count F - 1 = 0 then
                   (case driver_close (driver F) (filehandle F) w3 of
                      Inl f \<Rightarrow> Inl f
                    | Inr (rc, w4) \<Rightarrow>
                        Inr (if rc \<noteq> 0 \<and> st2 \<le> 0 then FILE_NOT_CLOSED else st2,
                             free_fitsfile h
                               (free_FITSfile a
                                 (w4\<lparr>FITSfiles := (FITSfiles w4)(a \<mapsto>
                                         F\<lparr>open_count := 0, filename := None, validcode := 0\<rparr>),
                                      events := events w4 @ [Free_filename a, Poison_validcode a]\<rparr>))))
                 else Inr (st2, w3)))"

subsection \<open>Reopening a file: \<^verbatim>\<open>ffreopen\<close>\<close>

text \<open>
  The second argument is what \<^verbatim>\<open>*newfptr\<close> holds before the call; the result holds
  what it is afterwards.  The result of \<^verbatim>\<open>calloc\<close> is not tested.
\<close>

definition ffreopen ::
  "nat option \<Rightarrow> nat option \<Rightarrow> int \<Rightarrow> 'x world \<Rightarrow> fault + ((int \<times> nat option) \<times> 'x world)" where
  "ffreopen openfptr newfptr0 status w =
     (if status > 0 then Inr ((status, newfptr0), w)
      else case openfptr of
        None \<Rightarrow> Inr ((NULL_INPUT_PTR, newfptr0), w)
      | Some h \<Rightarrow>
          (case shared_file w h of
             Inl f \<Rightarrow> Inl f
           | Inr (a, F) \<Rightarrow>
               if validcode F \<noteq> VALIDSTRUC then Inr ((BAD_FILEPTR, newfptr0), w)
               else
                 (case calloc_fitsfile w of
                    (None, w1) \<Rightarrow> Inl Null_pointer_write
                  | (Some n, w1) \<Rightarrow>
                      Inr ((status, Some n),
                           w1\<lparr>fitsfiles := (fitsfiles w1)(n \<mapsto> \<lparr>Fptr = a, HDUposition = 0\<rparr>),
                              FITSfiles := (FITSfiles w1)(a \<mapsto> F\<lparr>open_count := open_count F + 1\<rparr>)\<rparr>))))"

subsection \<open>Creating a file: \<^verbatim>\<open>ffinit\<close>\<close>

text \<open>
  The three allocations that \<^verbatim>\<open>ffopen\<close>, \<^verbatim>\<open>ffinit\<close> and \<^verbatim>\<open>ffomem\<close> make for a file that a
  driver has opened with the handle \<open>handle\<close>: the \<^verbatim>\<open>fitsfile\<close>, the \<^verbatim>\<open>FITSfile\<close> and the
  memory of the name.  When one fails, the driver closes the file and what was
  allocated is freed; \<open>Inl\<close> is the status returned then (\<open>no_name\<close> when there is no
  memory for the name).  Otherwise the result is the addresses of the two structures.
\<close>

definition allocate_structures ::
  "int \<Rightarrow> int \<Rightarrow> int \<Rightarrow> 'x world \<Rightarrow> fault + ((int + nat \<times> nat) \<times> 'x world)" where
  "allocate_structures d handle no_name w =
     (case calloc_fitsfile w of
        (None, w1) \<Rightarrow>
          (case driver_close d handle w1 of
             Inl f \<Rightarrow> Inl f
           | Inr (rc, w2) \<Rightarrow> Inr (Inl MEMORY_ALLOCATION, w2))
      | (Some h, w1) \<Rightarrow>
          (case calloc_FITSfile w1 of
             (None, w2) \<Rightarrow>
               (case driver_close d handle w2 of
                  Inl f \<Rightarrow> Inl f
                | Inr (rc, w3) \<Rightarrow> Inr (Inl MEMORY_ALLOCATION, free_fitsfile h w3))
           | (Some a, w2) \<Rightarrow>
               let w3 = w2\<lparr>fitsfiles := (fitsfiles w2)(h \<mapsto> \<lparr>Fptr = a, HDUposition = 0\<rparr>)\<rparr> in
               if \<not> alloc_succeeds w3 then
                 (case driver_close d handle (alloc_done w3) of
                    Inl f \<Rightarrow> Inl f
                  | Inr (rc, w4) \<Rightarrow> Inr (Inl no_name, free_fitsfile h (free_FITSfile a w4)))
               else Inr (Inr (h, a), alloc_done w3)))"

text \<open>
  \<^verbatim>\<open>ffinit\<close>.  The second argument is what \<^verbatim>\<open>*fptr\<close> holds before the call.  The
  structure comes from \<^verbatim>\<open>calloc\<close>, and the function assigns no value to its
  \<^verbatim>\<open>open_count\<close>.  \<^verbatim>\<open>ffourl\<close> copies the type of the URL into a local array of
  \<^verbatim>\<open>MAX_PREFIX_LEN\<close> bytes and the name into one of \<^verbatim>\<open>FLEN_FILENAME\<close> bytes, each with a
  NUL behind it, and tests no length.
\<close>

definition ffinit ::
  "('x, 'd) collaborators \<Rightarrow> nat option \<Rightarrow> string \<Rightarrow> int \<Rightarrow> 'x world \<Rightarrow>
     fault + ((int \<times> nat option) \<times> 'x world)" where
  "ffinit env fptr0 name status w =
     (if status > 0 then Inr ((status, fptr0), w)
      else
        case (if need_to_initialize w then fits_init_cfitsio env w else Inr (status, w)) of
          Inl f \<Rightarrow> Inl f
        | Inr (st1, w1) \<Rightarrow>
            if st1 > 0 then Inr ((st1, None), w1)
            else
              let url0 = skip_blanks name in
              if nth_char url0 0 = CHR 0x00 then Inr ((FILE_NOT_CREATED, None), w1)
              else
                let clobber = (nth_char url0 0 = CHR ''!'');
                    url = (if clobber then drop 1 url0 else url0);
                    (st2, utype, ofile) = ffourl url ([], []) st1
                in
                if MAX_PREFIX_LEN \<le> length utype \<or> FLEN_FILENAME env \<le> length ofile
                then Inl Out_of_bounds_write
                else if st2 > 0 then Inr ((st2, None), w1)
                else
                  (case urltype2driver utype w1 of
                     Inl f \<Rightarrow> Inl f
                   | Inr (st3, drv) \<Rightarrow>
                       if st3 \<noteq> 0 then Inr ((st3, None), w1)
                       else
                         let d = the drv;
                             entry = driverTable w1 ! nat d;
                             w2 = (if clobber
                                   then (case remove_fn entry of
                                           None \<Rightarrow> w1
                                         | Some f \<Rightarrow> w1\<lparr>extern := snd (f ofile (extern w1))\<rparr>)
                                   else w1)
                         in
                         (case create entry of
                            None \<Rightarrow> Inr ((FILE_NOT_CREATED, None), w2)
                          | Some f \<Rightarrow>
                              let st4 = fst (fst (f ofile (extern w2)));
                                  handle = snd (fst (f ofile (extern w2)));
                                  w3 = w2\<lparr>extern := snd (f ofile (extern w2))\<rparr>
                              in
                              if st4 \<noteq> 0 then Inr ((st4, None), w3)
                              else
                                (case allocate_structures d handle FILE_NOT_CREATED w3 of
                                   Inl f \<Rightarrow> Inl f
                                 | Inr (Inl st5, w4) \<Rightarrow> Inr ((st5, None), w4)
                                 | Inr (Inr (h, a), w4) \<Rightarrow>
                                     let w5 = w4\<lparr>FITSfiles := (FITSfiles w4)(a \<mapsto>
                                                zero_FITSfile\<lparr>filehandle := handle, driver := d,
                                                  filename := Some url, filesize := 0,
                                                  logfilesize := 0, writemode := 1,
                                                  datastart := DATA_UNDEFINED, curbuf := - 1,
                                                  validcode := VALIDSTRUC\<rparr>)\<rparr>;
                                         (st6, w6) = outside w5 (ffldrc env w5 h 0 IGNORE_EOF st4)
                                     in Inr ((st6, Some h), w6)))))"

subsection \<open>Opening a file: \<^verbatim>\<open>ffopen\<close>\<close>

text \<open>
  A call of \<^verbatim>\<open>ffiurl\<close> with seven buffers, as \<^verbatim>\<open>ffopen\<close> and \<^verbatim>\<open>ffextn\<close> make it.  The
  buffers are local arrays that are not initialised; \<^verbatim>\<open>ffiurl\<close> clears them, since
  the status is not positive at these calls.  It calls \<^verbatim>\<open>malloc\<close> once when the
  status is not positive and the string is not empty.
\<close>

definition seven_buffers :: url_parts where
  "seven_buffers =
     \<lparr>urltype = Some [], infile = Some [], outfile = Some [], extspec = Some [],
      rowfilter = Some [], binspec = Some [], colspec = Some []\<rparr>"

text \<open>
  The seven buffers are local arrays of the caller: \<^verbatim>\<open>urltype\<close> has \<^verbatim>\<open>MAX_PREFIX_LEN\<close>
  bytes in \<^verbatim>\<open>ffopen\<close> and 20 bytes in \<^verbatim>\<open>ffextn\<close>, which is the same number, and each of
  the six others has \<^verbatim>\<open>FLEN_FILENAME\<close> bytes.  \<^verbatim>\<open>ffiurl\<close> copies into them with \<^verbatim>\<open>strcat\<close>,
  \<^verbatim>\<open>strncat\<close>, \<^verbatim>\<open>strcpy\<close> and \<^verbatim>\<open>strncpy\<close> and tests no length.  Each copy writes the
  string and a NUL, so a string of \<open>n\<close> characters does not fit into \<open>n\<close> bytes.

  The strings that \<^verbatim>\<open>ffiurl\<close> copies from the lower-case filter into \<^verbatim>\<open>binspec\<close>,
  \<^verbatim>\<open>colspec\<close> and \<^verbatim>\<open>rowfilter\<close>, in this order: \<^verbatim>\<open>strcpy(binspec, ptr1 + 1)\<close> and
  \<^verbatim>\<open>strcpy(colspec, ptr1 + 1)\<close> copy all that follows the \<^verbatim>\<open>[\<close>, before it is cut at the
  \<^verbatim>\<open>]\<close>; after a specification without \<^verbatim>\<open>]\<close> the function returns.
\<close>

definition filter_copies :: "string \<Rightarrow> string list" where
  "filter_copies rowfilter0 =
     (if rowfilter0 = [] then []
      else
        let rf1 = map tolower rowfilter0 in
        case find_binspec rf1 of
          None \<Rightarrow>
            (case strstr rf1 ''[col'' of
               None \<Rightarrow> [rf1]
             | Some c \<Rightarrow>
                 (case extract_spec rf1 c (Some []) of
                    Inr (Some (rf3, col)) \<Rightarrow> [drop (Suc c) rf1, rf3]
                  | _ \<Rightarrow> [drop (Suc c) rf1]))
        | Some b \<Rightarrow>
            (case extract_spec rf1 b (Some []) of
               Inr (Some (rf2, bin)) \<Rightarrow>
                 (case strstr rf2 ''[col'' of
                    None \<Rightarrow> [drop (Suc b) rf1, rf2]
                  | Some c \<Rightarrow>
                      (case extract_spec rf2 c (Some []) of
                         Inr (Some (rf3, col)) \<Rightarrow> [drop (Suc b) rf1, drop (Suc c) rf2, rf3]
                       | _ \<Rightarrow> [drop (Suc b) rf1, drop (Suc c) rf2]))
             | _ \<Rightarrow> [drop (Suc b) rf1]))"

text \<open>
  All the strings that \<^verbatim>\<open>ffiurl\<close> copies into the six buffers other than \<^verbatim>\<open>urltype\<close>, when
  no pointer is NULL, the status is not positive, the URL is not empty and \<^verbatim>\<open>malloc\<close>
  succeeds: the text between the parentheses into \<^verbatim>\<open>outfile\<close>, the digits behind the
  \<^verbatim>\<open>+\<close> into \<^verbatim>\<open>extspec\<close>, the root name for the \<^verbatim>\<open>*\<close> into \<^verbatim>\<open>outfile\<close>, the name into
  \<^verbatim>\<open>infile\<close>, the text of the first bracket into \<^verbatim>\<open>extspec\<close>, then the copies of the
  filters.  Nothing is copied after a \<^verbatim>\<open>return\<close>.
\<close>

definition ffiurl_copies :: "string \<Rightarrow> string list" where
  "ffiurl_copies url =
     (let ptr1 = snd (url_prefix url) in
      case input_names ptr1 of
        None \<Rightarrow> []
      | Some (name, between) \<Rightarrow>
          let infile1 = strip_trailing_blanks name;
              ii = search_backwards CHR ''+'' infile1 (length infile1);
              plus_ext = plus_extension infile1 ii;
              infile2 = (if plus_ext then take (nat ii) infile1 else infile1);
              outfile1 = (case between of None \<Rightarrow> [] | Some t \<Rightarrow> strip_trailing_blanks t);
              slash = search_backwards CHR ''/'' infile2 (length infile2)
          in (case between of None \<Rightarrow> [] | Some t \<Rightarrow> [t])
             @ (if plus_ext then [drop (nat (ii + 1)) infile1] else [])
             @ (if nth_char outfile1 0 = CHR ''*'' \<and> 0 \<le> slash
                then [drop (nat (slash + 1)) infile2] else [])
             @ [infile2]
             @ (case strchr ptr1 CHR ''['' of
                  None \<Rightarrow> []
                | Some k \<Rightarrow>
                    (case bracket_extension plus_ext (drop k ptr1) (Some []) of
                       None \<Rightarrow> []
                     | Some (rowfilter0, ext) \<Rightarrow>
                         (if plus_ext then [] else [the ext]) @ filter_copies rowfilter0)))"

text \<open>
  The call of \<^verbatim>\<open>ffiurl\<close> with the seven arrays; \<open>flen\<close> is \<^verbatim>\<open>FLEN_FILENAME\<close>.  A type of
  the URL of \<^verbatim>\<open>MAX_PREFIX_LEN\<close> or more characters, or another string of \<open>flen\<close> or more
  characters, is written beyond the end of its array.
\<close>

definition parse_url ::
  "nat \<Rightarrow> string \<Rightarrow> int \<Rightarrow> 'x world \<Rightarrow> fault + ((int \<times> url_parts) \<times> 'x world)" where
  "parse_url flen url status w =
     (case ffiurl url seven_buffers (alloc_succeeds w) status of
        Inl f \<Rightarrow> Inl f
      | Inr r \<Rightarrow>
          if status > 0 \<or> url = [] then Inr (r, w)
          else if alloc_succeeds w \<and>
                  (MAX_PREFIX_LEN \<le> length (fst (url_prefix url)) \<or>
                   list_ex (\<lambda>s. flen \<le> length s) (ffiurl_copies url))
          then Inl Out_of_bounds_write
          else Inr (r, alloc_done w))"

text \<open>The test whether a file that is open is the file to be opened.\<close>

definition same_file :: "url_parts \<Rightarrow> url_parts \<Rightarrow> bool" where
  "same_file new old =
     (urltype new = urltype old \<and> infile new = infile old \<and>
      (rowfilter new = Some [] \<and> rowfilter old = Some [] \<and>
       binspec new = Some [] \<and> binspec old = Some [] \<and>
       colspec new = Some [] \<and> colspec old = Some []
       \<or>
       rowfilter new = rowfilter old \<and> binspec new = binspec old \<and>
       colspec new = colspec old \<and> extspec new = extspec old))"

text \<open>
  The loop \<^verbatim>\<open>for (ii = 0; ii < NIOBUF; ii++)\<close> over the buffers; the first number
  counts the rounds that are left.  It ends with a \<^verbatim>\<open>return\<close> of a status, with the
  address of the \<^verbatim>\<open>FITSfile\<close> to attach to, or without a match.
\<close>

datatype 'x scan = Scan_returns int "'x world" | Scan_attach nat "'x world" | Scan_done "'x world"

fun reuse_scan ::
  "('x, 'd) collaborators \<Rightarrow> url_parts \<Rightarrow> int \<Rightarrow> nat \<Rightarrow> nat \<Rightarrow> 'x world \<Rightarrow> fault + 'x scan" where
  "reuse_scan env new status 0 ii w = Inr (Scan_done w)"
| "reuse_scan env new status (Suc n) ii w =
     (case ffcurbuf env w ii of
        None \<Rightarrow> reuse_scan env new status n (Suc ii) w
      | Some a \<Rightarrow>
          (case FITSfiles w a of
             None \<Rightarrow> Inl Dangling_pointer
           | Some F \<Rightarrow>
               (case filename F of
                  None \<Rightarrow> Inl Null_pointer_read
                | Some fname \<Rightarrow>
                    (case parse_url (FLEN_FILENAME env) fname status w of
                       Inl f \<Rightarrow> Inl f
                     | Inr ((st, old), w1) \<Rightarrow>
                         if st > 0 then Inr (Scan_returns st w1)
                         else if same_file new old then Inr (Scan_attach a w1)
                         else reuse_scan env new st n (Suc ii) w1))))"

text \<open>
  The file is open already: a new \<^verbatim>\<open>fitsfile\<close> that points to the \<^verbatim>\<open>FITSfile\<close> at \<open>a\<close>,
  whose \<^verbatim>\<open>open_count\<close> is incremented.  \<open>Inl\<close> is the status when there is no memory.
\<close>

definition attach_handle :: "nat \<Rightarrow> 'x world \<Rightarrow> fault + ((int + nat) \<times> 'x world)" where
  "attach_handle a w =
     (case calloc_fitsfile w of
        (None, w1) \<Rightarrow> Inr (Inl MEMORY_ALLOCATION, w1)
      | (Some h, w1) \<Rightarrow>
          (case FITSfiles w1 a of
             None \<Rightarrow> Inl Dangling_pointer
           | Some F \<Rightarrow>
               Inr (Inr h,
                    w1\<lparr>fitsfiles := (fitsfiles w1)(h \<mapsto> \<lparr>Fptr = a, HDUposition = 0\<rparr>),
                       FITSfiles := (FITSfiles w1)(a \<mapsto> F\<lparr>open_count := open_count F + 1\<rparr>)\<rparr>)))"

text \<open>
  The file is not open yet: from the search for the driver to the call of \<^verbatim>\<open>ffrhdu\<close>.
  \<open>Inl\<close> is the status at a \<^verbatim>\<open>return\<close> (with \<^verbatim>\<open>*fptr\<close> null), \<open>Inr\<close> the status and
  the new handle.
\<close>

definition open_new ::
  "('x, 'd) collaborators \<Rightarrow> string \<Rightarrow> url_parts \<Rightarrow> int \<Rightarrow> 'x world \<Rightarrow>
     fault + ((int + int \<times> nat) \<times> 'x world)" where
  "open_new env url p mode w =
     (case urltype2driver (the (urltype p)) w of
        Inl f \<Rightarrow> Inl f
      | Inr (st1, drv1) \<Rightarrow>
          if st1 > 0 then Inr (Inl st1, w)
          else
            let (st2, utype, ifile, w2) =
                  (case checkfile (driverTable w ! nat (the drv1)) of
                     None \<Rightarrow> (st1, the (urltype p), the (infile p), w)
                   | Some f \<Rightarrow>
                       (case f (the (urltype p)) (the (infile p)) (the (outfile p)) (extern w) of
                          ((st, utype1, ifile1, ofile1), x) \<Rightarrow> (st, utype1, ifile1, w\<lparr>extern := x\<rparr>)))
            in
            if checkfile (driverTable w ! nat (the drv1)) \<noteq> None \<and> st2 \<noteq> 0
            then Inr (Inl st2, w2)
            else
              (case (if utype \<noteq> the (urltype p) then urltype2driver utype w2
                     else Inr (st2, drv1)) of
                 Inl f \<Rightarrow> Inl f
               | Inr (st3, drv) \<Rightarrow>
                   if st3 > 0 then Inr (Inl st3, w2)
                   else
                     let d = the drv in
                     (case open_fn (driverTable w2 ! nat d) of
                        None \<Rightarrow> Inr (Inl FILE_NOT_OPENED, w2)
                      | Some f \<Rightarrow>
                          let st4 = fst (fst (f ifile mode (extern w2)));
                              handle = snd (fst (f ifile mode (extern w2)));
                              w3 = w2\<lparr>extern := snd (f ifile mode (extern w2))\<rparr>
                          in
                          if st4 > 0 then Inr (Inl st4, w3)
                          else
                            (case size_fn (driverTable w3 ! nat d) of
                               None \<Rightarrow> Inl Null_pointer_read
                             | Some g \<Rightarrow>
                                 let st5 = fst (fst (g handle (extern w3)));
                                     fsize = snd (fst (g handle (extern w3)));
                                     w4 = w3\<lparr>extern := snd (g handle (extern w3))\<rparr>
                                 in
                                 if st5 > 0 then
                                   (case driver_close d handle w4 of
                                      Inl f \<Rightarrow> Inl f
                                    | Inr (rc, w5) \<Rightarrow> Inr (Inl st5, w5))
                                 else
                                   (case allocate_structures d handle MEMORY_ALLOCATION w4 of
                                      Inl f \<Rightarrow> Inl f
                                    | Inr (Inl st6, w5) \<Rightarrow> Inr (Inl st6, w5)
                                    | Inr (Inr (h, a), w5) \<Rightarrow>
                                        let w6 = w5\<lparr>FITSfiles := (FITSfiles w5)(a \<mapsto>
                                                   zero_FITSfile\<lparr>filehandle := handle, driver := d,
                                                     filename := Some url, filesize := fsize,
                                                     logfilesize := fsize, writemode := mode,
                                                     datastart := DATA_UNDEFINED, curbuf := - 1,
                                                     open_count := 1, validcode := VALIDSTRUC\<rparr>)\<rparr>;
                                            (st7, w7) = outside w6 (ffldrc env w6 h 0 REPORT_EOF st5);
                                            (st8, w8) = outside w7 (ffrhdu env w7 h st7)
                                        in
                                        if st8 > 0 then
                                          (case ffclos env (Some h) st8 w8 of
                                             Inl f \<Rightarrow> Inl f
                                           | Inr (st9, w9) \<Rightarrow> Inr (Inl st9, w9))
                                        else Inr (Inr (st8, h), w8))))))"

subsection \<open>Selecting rows: \<^verbatim>\<open>ffselect_table\<close>\<close>

text \<open>
  The loop \<^verbatim>\<open>for (ii = 1; ii < hdunum; ii++)\<close> that copies the HDUs in front of the
  table; the first number counts the rounds that are left, and the flag of the result
  says that the loop was left by a failure of \<^verbatim>\<open>fits_copy_hdu\<close>.
\<close>

fun copy_preceding ::
  "('x, 'd) collaborators \<Rightarrow> nat \<Rightarrow> nat \<Rightarrow> nat \<Rightarrow> int \<Rightarrow> int \<Rightarrow> 'x world \<Rightarrow> bool \<times> int \<times> 'x world" where
  "copy_preceding env h n 0 ii status w = (False, status, w)"
| "copy_preceding env h n (Suc k) ii status w =
     (let (st1, w1) = outside w (ffmahd env w h ii status);
          (st2, w2) = outside w1 (ffcopy env w1 h n 0 st1)
      in if st2 > 0 then (True, st2, w2) else copy_preceding env h n k (ii + 1) st2 w2)"

text \<open>
  The loop \<^verbatim>\<open>for (ii = hdunum + 1; 1; ii++)\<close> that copies the HDUs behind the table.  It
  ends when \<^verbatim>\<open>fits_movabs_hdu\<close> returns a positive status, and not before.
\<close>

partial_function (option) copy_following ::
  "('x, 'd) collaborators \<Rightarrow> nat \<Rightarrow> nat \<Rightarrow> int \<Rightarrow> int \<Rightarrow> 'x world \<Rightarrow> (int \<times> 'x world) option" where
  "copy_following env h n ii status w =
     (if fst (outside w (ffmahd env w h ii status)) > 0
      then Some (outside w (ffmahd env w h ii status))
      else copy_following env h n (ii + 1)
             (fst (outside (snd (outside w (ffmahd env w h ii status)))
                     (ffcopy env (snd (outside w (ffmahd env w h ii status))) h n 0
                        (fst (outside w (ffmahd env w h ii status))))))
             (snd (outside (snd (outside w (ffmahd env w h ii status)))
                     (ffcopy env (snd (outside w (ffmahd env w h ii status))) h n 0
                        (fst (outside w (ffmahd env w h ii status)))))))"

text \<open>
  \<^verbatim>\<open>ffselect_table\<close>.  \<open>h\<close> is the handle \<^verbatim>\<open>*fptr\<close> of the table; the result holds the
  handle that \<^verbatim>\<open>*fptr\<close> is afterwards.  \<open>None\<close>: the second loop does not end.
\<close>

definition close_new_file ::
  "('x, 'd) collaborators \<Rightarrow> nat \<Rightarrow> nat \<Rightarrow> int \<Rightarrow> 'x world \<Rightarrow> fault + ((int \<times> nat) \<times> 'x world)" where
  "close_new_file env h n status w =
     (case ffclos env (Some n) status w of
        Inl f \<Rightarrow> Inl f
      | Inr (st, w1) \<Rightarrow> Inr ((st, h), w1))"

definition replace_by_new_file ::
  "('x, 'd) collaborators \<Rightarrow> nat \<Rightarrow> nat \<Rightarrow> int \<Rightarrow> int \<Rightarrow> 'x world \<Rightarrow> fault + ((int \<times> nat) \<times> 'x world)" where
  "replace_by_new_file env h n hdunum status w =
     (case ffclos env (Some h) status w of
        Inl f \<Rightarrow> Inl f
      | Inr (st, w1) \<Rightarrow>
          Inr ((fst (outside w1 (ffmahd env w1 n hdunum st)), n),
               snd (outside w1 (ffmahd env w1 n hdunum st))))"

definition ffselect_table ::
  "('x, 'd) collaborators \<Rightarrow> nat \<Rightarrow> string \<Rightarrow> int \<Rightarrow> 'x world \<Rightarrow>
     (fault + ((int \<times> nat) \<times> 'x world)) option" where
  "ffselect_table env h expr status w =
     (case ffinit env None ''mem://'' status w of
        Inl f \<Rightarrow> Some (Inl f)
      | Inr ((st0, newptr), w0) \<Rightarrow>
          if st0 > 0 then Some (Inr ((st0, h), w0))
          else
            (case newptr of
               None \<Rightarrow> Some (Inl Null_pointer_read)
             | Some n \<Rightarrow>
                 let hdunum = ffghdn env w0 h;
                     (failed, st1, w1) = copy_preceding env h n (nat (hdunum - 1)) 1 st0 w0
                 in
                 if failed then Some (close_new_file env h n st1 w1)
                 else
                   let (st2, w2) = outside w1 (ffmahd env w1 h hdunum st1);
                       (st3, w3) = outside w2 (ffcphd env w2 h n st2)
                   in
                   if st3 > 0 then Some (close_new_file env h n st3 w3)
                   else
                     let (st4, w4) = outside w3 (ffmkyj env w3 n ''NAXIS2'' 0 st3);
                         (st5, w5) = outside w4 (ffrdef env w4 h st4)
                     in
                     if st5 > 0 then Some (close_new_file env h n st5 w5)
                     else if expr = [] then Some (Inl Out_of_bounds_read)
                     else
                       let (st6, w6) = outside w5 (ffsrow env w5 h n (butlast (drop 1 expr)) st5) in
                       if st6 > 0 then Some (close_new_file env h n st6 w6)
                       else
                         (case copy_following env h n (hdunum + 1) st6 w6 of
                            None \<Rightarrow> None
                          | Some (st7, w7) \<Rightarrow>
                              if st7 = END_OF_FILE then Some (replace_by_new_file env h n hdunum 0 w7)
                              else if st7 > 0 then Some (close_new_file env h n st7 w7)
                              else Some (replace_by_new_file env h n hdunum st7 w7))))"

subsection \<open>\<^verbatim>\<open>ffopen\<close>, from the label \<^verbatim>\<open>move2hdu\<close> on\<close>

text \<open>
  Moving to the extension, selecting rows and binning, for the handle \<open>h\<close>.  The
  outputs of \<^verbatim>\<open>ffbins\<close> are local variables that are not initialised; it sets them, since
  the status is not positive at the call.
\<close>

definition no_binning :: "'d floating \<Rightarrow> 'd binning" where
  "no_binning fp =
     \<lparr>imagetype = 0, haxis = 0, colname = replicate 4 [], minin = replicate 4 (one fp),
      maxin = replicate 4 (one fp), binsizein = replicate 4 (one fp),
      minname = replicate 4 [], maxname = replicate 4 [], binname = replicate 4 [],
      weight = one fp, wtname = [], recip = 0\<rparr>"

definition move_to_extension ::
  "('x, 'd) collaborators \<Rightarrow> nat \<Rightarrow> string \<Rightarrow> int \<Rightarrow> 'x world \<Rightarrow> fault + (int \<times> 'x world)" where
  "move_to_extension env h ext status w =
     (if ext = [] then Inr (status, w)
      else case ffexts ext status of
        Inl f \<Rightarrow> Inl f
      | Inr (st, e) \<Rightarrow>
          if st > 0 then Inr (st, w)
          else if extnum e \<noteq> 0 then Inr (outside w (ffmahd env w h (extnum e + 1) st))
          else if extname e \<noteq> [] then
            Inr (outside w (ffmnhd env w h (hdutype e) (extname e) (extvers e) st))
          else Inr (st, w))"

definition bin_table ::
  "('x, 'd) collaborators \<Rightarrow> nat option \<Rightarrow> string \<Rightarrow> int \<Rightarrow> 'x world \<Rightarrow>
     fault + ((int \<times> nat option) \<times> 'x world)" where
  "bin_table env fptr spec status w =
     (if spec = [] then Inr ((status, fptr), w)
      else case ffbins (floating_point env) spec (no_binning (floating_point env))
                  (uninitialised env) status of
        Inl f \<Rightarrow> Inl f
      | Inr (st, b) \<Rightarrow> Inr (ffhist env w fptr b st))"

definition move2hdu ::
  "('x, 'd) collaborators \<Rightarrow> nat \<Rightarrow> string \<Rightarrow> string \<Rightarrow> string \<Rightarrow> int \<Rightarrow> 'x world \<Rightarrow>
     (fault + ((int \<times> nat option) \<times> 'x world)) option" where
  "move2hdu env h ext rowf bins status w =
     (case move_to_extension env h ext status w of
        Inl f \<Rightarrow> Some (Inl f)
      | Inr (st1, w1) \<Rightarrow>
          if st1 > 0 then Some (Inr ((st1, Some h), w1))
          else if rowf = [] then Some (bin_table env (Some h) bins st1 w1)
          else
            (case ffselect_table env h rowf st1 w1 of
               None \<Rightarrow> None
             | Some (Inl f) \<Rightarrow> Some (Inl f)
             | Some (Inr ((st2, h2), w2)) \<Rightarrow>
                 if st2 > 0 then Some (Inr ((st2, Some h2), w2))
                 else Some (bin_table env (Some h2) bins st2 w2)))"

subsection \<open>\<^verbatim>\<open>ffopen\<close>\<close>

text \<open>
  The second argument is what \<^verbatim>\<open>*fptr\<close> holds before the call.  \<open>None\<close>: the call does
  not return.
\<close>

definition ffopen ::
  "('x, 'd) collaborators \<Rightarrow> nat option \<Rightarrow> string \<Rightarrow> int \<Rightarrow> int \<Rightarrow> 'x world \<Rightarrow>
     (fault + ((int \<times> nat option) \<times> 'x world)) option" where
  "ffopen env fptr0 name mode status w =
     (if status > 0 then Some (Inr ((status, fptr0), w))
      else
        case (if need_to_initialize w then fits_init_cfitsio env w else Inr (status, w)) of
          Inl f \<Rightarrow> Some (Inl f)
        | Inr (st1, w1) \<Rightarrow>
            if st1 > 0 then Some (Inr ((st1, None), w1))
            else
              let url = skip_blanks name in
              if nth_char url 0 = CHR 0x00 then Some (Inr ((FILE_NOT_OPENED, None), w1))
              else
                (case parse_url (FLEN_FILENAME env) url st1 w1 of
                   Inl f \<Rightarrow> Some (Inl f)
                 | Inr ((st2, p), w2) \<Rightarrow>
                     if st2 > 0 then Some (Inr ((st2, None), w2))
                     else
                       (case reuse_scan env p st2 (NIOBUF env) 0 w2 of
                          Inl f \<Rightarrow> Some (Inl f)
                        | Inr (Scan_returns st3 w3) \<Rightarrow> Some (Inr ((st3, None), w3))
                        | Inr (Scan_attach a w3) \<Rightarrow>
                            (case attach_handle a w3 of
                               Inl f \<Rightarrow> Some (Inl f)
                             | Inr (Inl st4, w4) \<Rightarrow> Some (Inr ((st4, None), w4))
                             | Inr (Inr h, w4) \<Rightarrow>
                                 move2hdu env h
                                   (if the (binspec p) \<noteq> [] then [] else the (extspec p))
                                   [] [] st2 w4)
                        | Inr (Scan_done w3) \<Rightarrow>
                            (case open_new env url p mode w3 of
                               Inl f \<Rightarrow> Some (Inl f)
                             | Inr (Inl st4, w4) \<Rightarrow> Some (Inr ((st4, None), w4))
                             | Inr (Inr (st4, h), w4) \<Rightarrow>
                                 move2hdu env h (the (extspec p)) (the (rowfilter p))
                                   (the (binspec p)) st4 w4))))"

subsection \<open>The number of the extension of a URL: \<^verbatim>\<open>ffextn\<close>\<close>

text \<open>
  The third argument is what \<^verbatim>\<open>*extension_num\<close> holds before the call; the result
  holds the status and what it is afterwards.  For a named extension,
  \<^verbatim>\<open>strcpy(infile, url)\<close> copies the URL into the array of \<^verbatim>\<open>FLEN_FILENAME\<close> bytes before
  the \<^verbatim>\<open>]\<close> is searched.
\<close>

definition named_extension ::
  "('x, 'd) collaborators \<Rightarrow> string \<Rightarrow> int \<Rightarrow> int \<Rightarrow> 'x world \<Rightarrow>
     (fault + ((int \<times> int) \<times> 'x world)) option" where
  "named_extension env url num0 status w =
     (if FLEN_FILENAME env \<le> length url then Some (Inl Out_of_bounds_write)
      else case strchr url CHR '']'' of
        None \<Rightarrow> Some (Inr ((URL_PARSE_ERROR, num0), w))
      | Some k \<Rightarrow>
          (case ffopen env None (take (Suc k) url) READONLY status w of
             None \<Rightarrow> None
           | Some (Inl f) \<Rightarrow> Some (Inl f)
           | Some (Inr ((st1, fptr), w1)) \<Rightarrow>
               if st1 > 0 then Some (Inr ((st1, num0), w1))
               else
                 (case fptr of
                    None \<Rightarrow> Some (Inl Null_pointer_read)
                  | Some h \<Rightarrow>
                      (case ffclos env (Some h) st1 w1 of
                         Inl f \<Rightarrow> Some (Inl f)
                       | Inr (st2, w2) \<Rightarrow> Some (Inr ((st2, ffghdn env w1 h), w2))))))"

definition ffextn ::
  "('x, 'd) collaborators \<Rightarrow> string \<Rightarrow> int \<Rightarrow> int \<Rightarrow> 'x world \<Rightarrow>
     (fault + ((int \<times> int) \<times> 'x world)) option" where
  "ffextn env url num0 status w =
     (if status > 0 then Some (Inr ((status, num0), w))
      else
        case parse_url (FLEN_FILENAME env) url status w of
          Inl f \<Rightarrow> Some (Inl f)
        | Inr ((st1, p), w1) \<Rightarrow>
            if st1 > 0 then Some (Inr ((st1, num0), w1))
            else if the (binspec p) \<noteq> [] then Some (Inr ((st1, 1), w1))
            else if the (extspec p) \<noteq> [] then
              (case ffexts (the (extspec p)) st1 of
                 Inl f \<Rightarrow> Some (Inl f)
               | Inr (st2, e) \<Rightarrow>
                   if st2 > 0 then Some (Inr ((st2, num0), w1))
                   else if extname e \<noteq> [] then
                     (if the (urltype p) = ''stdin://''
                      then Some (Inr ((URL_PARSE_ERROR, num0), w1))
                      else named_extension env url num0 st2 w1)
                   else Some (Inr ((st2, extnum e + 1), w1)))
            else Some (Inr ((st1, - 99), w1)))"

subsection \<open>Sample states\<close>

text \<open>Two drivers registered with the same prefix, the second one last.\<close>

definition driver_A :: "unit driver_functions" where
  "driver_A = no_functions\<lparr>close := Some (\<lambda>h x. (0, x))\<rparr>"
definition driver_B :: "unit driver_functions" where
  "driver_B = no_functions\<lparr>close := Some (\<lambda>h x. (1, x))\<rparr>"

definition two_drivers :: "unit world" where
  "two_drivers = (initial_world ())\<lparr>driverTable :=
       [driver_functions.extend driver_A \<lparr>prefix = ''x://''\<rparr>,
        driver_functions.extend driver_B \<lparr>prefix = ''x://''\<rparr>] @ replicate 13 zero_driver,
     no_of_drivers := 2\<rparr>"

text \<open>
  A library with two drivers, for files on disk (they can be opened) and for files in
  memory (they can be created), and collaborators that succeed.  The outside state
  is the list of the files that own a record buffer, by the address of their \<^verbatim>\<open>FITSfile\<close>;
  \<^verbatim>\<open>ffldrc\<close> gives the file of its handle a buffer.  A file has 2 HDUs after the current
  one at most: \<^verbatim>\<open>ffmahd\<close> returns \<^verbatim>\<open>END_OF_FILE\<close> for a number above 3.  A value of type
  \<^verbatim>\<open>double\<close> is the text it is read from.
\<close>

definition disk_functions :: "(nat option list) driver_functions" where
  "disk_functions =
     no_functions\<lparr>open_fn := Some (\<lambda>name mode x. ((0, 3), x)),
                  close := Some (\<lambda>handle x. (0, x)),
                  size_fn := Some (\<lambda>handle x. ((0, 2880), x))\<rparr>"

definition memory_functions :: "(nat option list) driver_functions" where
  "memory_functions =
     no_functions\<lparr>create := Some (\<lambda>name x. ((0, 4), x)),
                  close := Some (\<lambda>handle x. (0, x)),
                  size_fn := Some (\<lambda>handle x. ((0, 0), x))\<rparr>"

fun give_buffer :: "nat option list \<Rightarrow> nat \<Rightarrow> nat option list" where
  "give_buffer [] a = []"
| "give_buffer (None # bs) a = Some a # bs"
| "give_buffer (Some b # bs) a = (if a = b then Some b # bs else Some b # give_buffer bs a)"

definition sample_floating :: "string floating" where
  "sample_floating =
     \<lparr>strtod = (\<lambda>s. s), one = ''1.'', DOUBLENULLVALUE = ''-9.1191291391491E-36'',
      FLOATNULLVALUE = ''-9.11912E-36F''\<rparr>"

definition sample_collaborators :: "(nat option list, string) collaborators" where
  "sample_collaborators =
     \<lparr>NIOBUF = 3, FLEN_FILENAME = 1025, byte_order_ok = True,
      standard_drivers = [(''file://'', disk_functions), (''mem://'', memory_functions)],
      floating_point = sample_floating,
      uninitialised = (\<lambda>_. False),
      ffcurbuf = (\<lambda>w ii. if ii < length (extern w) then extern w ! ii else None),
      ffldrc = (\<lambda>w h record_number err_mode status.
                 (status,
                  if status > 0 then extern w
                  else case fitsfiles w h of
                         None \<Rightarrow> extern w
                       | Some hs \<Rightarrow> give_buffer (extern w) (Fptr hs))),
      ffrhdu = (\<lambda>w h status. (status, extern w)),
      ffmahd = (\<lambda>w h hdunum status.
                 (if status > 0 then status else if hdunum > 3 then END_OF_FILE else status,
                  extern w)),
      ffmnhd = (\<lambda>w h exttype name vers status. (status, extern w)),
      ffghdn = (\<lambda>w h. 2),
      ffcopy = (\<lambda>w h n morekeys status. (status, extern w)),
      ffcphd = (\<lambda>w h n status. (status, extern w)),
      ffmkyj = (\<lambda>w h keyname v status. (status, extern w)),
      ffrdef = (\<lambda>w h status. (status, extern w)),
      ffsrow = (\<lambda>w h n expr status. (status, extern w)),
      ffchdu = (\<lambda>w h status. (status, extern w)),
      ffflsh = (\<lambda>w h clearbuf status. (status, extern w)),
      ffhist = (\<lambda>w fptr b status. ((status, fptr), w))\<rparr>"

text \<open>The state after the two drivers are registered, with no file open.\<close>

definition sample_world :: "nat option list world" where
  "sample_world =
     (initial_world [None, None, None])
       \<lparr>need_to_initialize := False, no_of_drivers := 2,
        driverTable :=
          [driver_functions.extend disk_functions \<lparr>prefix = ''file://''\<rparr>,
           driver_functions.extend memory_functions \<lparr>prefix = ''mem://''\<rparr>]
          @ replicate 13 zero_driver\<rparr>"

text \<open>
  The state after \<open>t.fits\<close> is opened in this library: the handle at address 1, the
  \<^verbatim>\<open>FITSfile\<close> at address 2, which owns the first buffer.
\<close>

definition one_open_file :: "nat option list world" where
  "one_open_file =
     sample_world
       \<lparr>FITSfiles := (FITSfiles sample_world)(2 \<mapsto>
           \<lparr>filehandle = 3, driver = 0, filename = Some ''t.fits'', filesize = 2880,
            logfilesize = 2880, writemode = 0, datastart = - 1, curbuf = - 1,
            open_count = 1, validcode = 555\<rparr>),
        fitsfiles := (fitsfiles sample_world)(1 \<mapsto> \<lparr>Fptr = 2, HDUposition = 0\<rparr>),
        next_address := 3,
        extern := [Some 2, None, None]\<rparr>"

section \<open>Properties\<close>

lemmas status_defs =
  FILE_NOT_OPENED_def FILE_NOT_CREATED_def END_OF_FILE_def FILE_NOT_CLOSED_def
  MEMORY_ALLOCATION_def BAD_FILEPTR_def NULL_INPUT_PTR_def BAD_URL_PREFIX_def
  TOO_MANY_DRIVERS_def NO_MATCHING_DRIVER_def URL_PARSE_ERROR_def

subsection \<open>The driver registry\<close>

lemma initial_world_registry [simp]:
  "no_of_drivers (initial_world x) = 0" "length (driverTable (initial_world x)) = 15"
  by (simp_all add: initial_world_def MAX_DRIVERS_def)

text \<open>With 14 drivers in the table, every further call is refused and changes nothing.\<close>

lemma register_refused_at_14:
  "no_of_drivers w = 14 \<Longrightarrow> fits_register_driver p fns w = Inr (TOO_MANY_DRIVERS, w)"
  by (simp add: fits_register_driver_def MAX_DRIVERS_def)

lemma register_no_init:
  assumes "0 \<le> no_of_drivers w" "no_of_drivers w < 14" "length (driverTable w) = 15"
    and "init fns = None"
  shows "fits_register_driver (Some p) fns w =
    Inr (0, w\<lparr>driverTable := (driverTable w)[nat (no_of_drivers w) :=
                 driver_functions.extend fns \<lparr>prefix = take (MAX_PREFIX_LEN - 1) p\<rparr>],
              no_of_drivers := no_of_drivers w + 1\<rparr>)"
  using assms by (simp add: fits_register_driver_def MAX_DRIVERS_def)

lemma register_all_no_init:
  assumes "\<forall>c \<in> set cs. fst c \<noteq> None \<and> init (snd c) = None"
    and "0 \<le> no_of_drivers w" "no_of_drivers w + int (length cs) \<le> 14"
    and "length (driverTable w) = 15"
  shows "\<exists>w'. register_all cs w = Inr (replicate (length cs) 0, w') \<and>
           no_of_drivers w' = no_of_drivers w + int (length cs) \<and>
           length (driverTable w') = 15"
  using assms
proof (induction cs arbitrary: w)
  case Nil
  then show ?case by simp
next
  case (Cons c cs)
  obtain p where p: "fst c = Some p" using Cons.prems(1) by auto
  have i: "init (snd c) = None" using Cons.prems(1) by simp
  let ?w1 = "w\<lparr>driverTable := (driverTable w)[nat (no_of_drivers w) :=
                 driver_functions.extend (snd c) \<lparr>prefix = take (MAX_PREFIX_LEN - 1) p\<rparr>],
              no_of_drivers := no_of_drivers w + 1\<rparr>"
  have r: "fits_register_driver (fst c) (snd c) w = Inr (0, ?w1)"
    unfolding p using Cons.prems i by (intro register_no_init) auto
  have "\<exists>w'. register_all cs ?w1 = Inr (replicate (length cs) 0, w') \<and>
           no_of_drivers w' = no_of_drivers ?w1 + int (length cs) \<and>
           length (driverTable w') = 15"
    using Cons.prems by (intro Cons.IH) auto
  then obtain w' where w': "register_all cs ?w1 = Inr (replicate (length cs) 0, w')"
    "no_of_drivers w' = no_of_drivers ?w1 + int (length cs)" "length (driverTable w') = 15"
    by blast
  show ?case using r w' by simp
qed

lemma register_all_append:
  "register_all (cs @ ds) w =
     (case register_all cs w of Inl f \<Rightarrow> Inl f
      | Inr (ss, w1) \<Rightarrow> (case register_all ds w1 of Inl f \<Rightarrow> Inl f
          | Inr (ts, w2) \<Rightarrow> Inr (ss @ ts, w2)))"
  by (induction cs arbitrary: w) (auto split: sum.splits prod.splits)

text \<open>
  From the empty registry, 14 registrations with a prefix and no \<^verbatim>\<open>init\<close> function
  succeed, and whatever the 15th call passes, it returns \<^verbatim>\<open>TOO_MANY_DRIVERS\<close> and
  leaves the state as it is.
\<close>

lemma register_fifteenth_call:
  assumes "length cs = 14" "\<forall>c \<in> set cs. fst c \<noteq> None \<and> init (snd c) = None"
  shows "\<exists>w. register_all cs (initial_world x) = Inr (replicate 14 0, w) \<and>
           no_of_drivers w = 14 \<and>
           register_all (cs @ [(p, fns)]) (initial_world x) =
             Inr (replicate 14 0 @ [TOO_MANY_DRIVERS], w)"
proof -
  from register_all_no_init[of cs "initial_world x"] assms
  obtain w' where w': "register_all cs (initial_world x) = Inr (replicate 14 0, w')"
    "no_of_drivers w' = 14" by auto
  show ?thesis using w' by (simp add: register_all_append register_refused_at_14)
qed

text \<open>
  C2.  The claim is that the first 15 registrations succeed and the 16th is refused.
  Here are 15 calls with the prefix \<open>x://\<close> and no functions, from the registry at
  program start: the first 14 return 0, the 15th returns \<^verbatim>\<open>TOO_MANY_DRIVERS\<close>, and the
  table holds 14 drivers afterwards.
\<close>

theorem fits_register_driver_fifteenth_refused:
  "map_sum id fst (register_all (replicate 15 (Some ''x://'', no_functions)) (initial_world ()))
     = Inr (replicate 14 0 @ [TOO_MANY_DRIVERS])
   \<and> map_sum id (no_of_drivers \<circ> snd)
       (register_all (replicate 15 (Some ''x://'', no_functions)) (initial_world ())) = Inr 14"
proof -
  let ?c = "(Some ''x://'', no_functions :: unit driver_functions)"
  have split: "replicate 15 ?c = replicate 14 ?c @ [?c]"
  proof -
    have "replicate (Suc 14) ?c = replicate 14 ?c @ [?c]"
      by (simp only: replicate_Suc replicate_append_same)
    then show ?thesis by simp
  qed
  have "\<exists>w. register_all (replicate 14 ?c) (initial_world ()) = Inr (replicate 14 0, w) \<and>
           no_of_drivers w = 14 \<and>
           register_all (replicate 14 ?c @ [?c]) (initial_world ()) =
             Inr (replicate 14 0 @ [TOO_MANY_DRIVERS], w)"
    by (rule register_fifteenth_call) (simp_all add: no_functions_def)
  then show ?thesis unfolding split by auto
qed

lemma urltype2driver_loop_found:
  "urltype2driver_loop tbl u k = Inr (0, Some ii) \<Longrightarrow> k \<le> length tbl \<Longrightarrow>
     0 \<le> ii \<and> ii < int k \<and> prefix (tbl ! nat ii) = u \<and>
     (\<forall>jj. ii < jj \<and> jj < int k \<longrightarrow> prefix (tbl ! nat jj) \<noteq> u)"
proof (induction k)
  case 0
  then show ?case by (simp add: NO_MATCHING_DRIVER_def)
next
  case (Suc k)
  show ?case
  proof (cases "prefix (tbl ! k) = u")
    case True
    with Suc.prems show ?thesis by auto
  next
    case False
    with Suc.prems have "urltype2driver_loop tbl u k = Inr (0, Some ii)" by simp
    with Suc have IH: "0 \<le> ii \<and> ii < int k \<and> prefix (tbl ! nat ii) = u \<and>
     (\<forall>jj. ii < jj \<and> jj < int k \<longrightarrow> prefix (tbl ! nat jj) \<noteq> u)" by simp
    have "\<And>jj. ii < jj \<Longrightarrow> jj < int (Suc k) \<Longrightarrow> prefix (tbl ! nat jj) \<noteq> u"
    proof -
      fix jj assume a: "ii < jj" "jj < int (Suc k)"
      show "prefix (tbl ! nat jj) \<noteq> u"
      proof (cases "jj = int k")
        case True then show ?thesis using False by simp
      next
        case False then show ?thesis using a IH by auto
      qed
    qed
    then show ?thesis using IH by auto
  qed
qed

lemma urltype2driver_loop_none:
  "k \<le> length tbl \<Longrightarrow> \<forall>jj<k. prefix (tbl ! jj) \<noteq> u \<Longrightarrow>
   urltype2driver_loop tbl u k = Inr (NO_MATCHING_DRIVER, None)"
  by (induction k) auto

lemma urltype2driver_loop_cases:
  "k \<le> length tbl \<Longrightarrow>
     (\<exists>ii. urltype2driver_loop tbl u k = Inr (0, Some ii)) \<or>
     urltype2driver_loop tbl u k = Inr (NO_MATCHING_DRIVER, None) \<and>
       (\<forall>jj<k. prefix (tbl ! jj) \<noteq> u)"
  by (induction k) (auto simp: less_Suc_eq)

lemma register_success:
  assumes "fits_register_driver (Some p) fns w = Inr (0, w1)"
  shows "0 \<le> no_of_drivers w \<and> no_of_drivers w < int (length (driverTable w)) \<and>
         no_of_drivers w1 = no_of_drivers w + 1 \<and>
         driverTable w1 = (driverTable w)[nat (no_of_drivers w) :=
            driver_functions.extend fns \<lparr>prefix = take (MAX_PREFIX_LEN - 1) p\<rparr>]"
  using assms
  by (auto simp: fits_register_driver_def Let_def TOO_MANY_DRIVERS_def
           split: if_splits prod.splits option.splits)

lemma urltype2driver_loop_top:
  "k < length tbl \<Longrightarrow> prefix (tbl ! k) = u \<Longrightarrow>
   urltype2driver_loop tbl u (Suc k) = Inr (0, Some (int k))"
  by simp

text \<open>
  C4.  \<^verbatim>\<open>urltype2driver\<close> compares the URL type with the prefixes in the table for
  equality, from the last registered driver backwards: either it returns 0 and the
  greatest index below \<open>no_of_drivers\<close> whose prefix equals the type, or no prefix in
  the table equals it and it returns \<^verbatim>\<open>NO_MATCHING_DRIVER\<close>.  After two successful
  registrations of the same prefix (shorter than \<^verbatim>\<open>MAX_PREFIX_LEN\<close>, as \<open>x://\<close> is),
  first with the functions \<open>A\<close>, then with \<open>B\<close>, the search for this prefix returns
  the index of the entry that holds \<open>B\<close>.
\<close>

theorem urltype2driver_most_recent:
  "(no_of_drivers w \<le> int (length (driverTable w)) \<longrightarrow>
      (\<exists>ii. urltype2driver u w = Inr (0, Some ii) \<and> 0 \<le> ii \<and> ii < no_of_drivers w \<and>
            prefix (driverTable w ! nat ii) = u \<and>
            (\<forall>jj. ii < jj \<and> jj < no_of_drivers w \<longrightarrow> prefix (driverTable w ! nat jj) \<noteq> u))
      \<or> urltype2driver u w = Inr (NO_MATCHING_DRIVER, None) \<and>
        (\<forall>jj. 0 \<le> jj \<and> jj < no_of_drivers w \<longrightarrow> prefix (driverTable w ! nat jj) \<noteq> u))
   \<and> (length p < MAX_PREFIX_LEN \<and>
        fits_register_driver (Some p) A w = Inr (0, w1) \<and>
        fits_register_driver (Some p) B w1 = Inr (0, w2) \<longrightarrow>
        urltype2driver p w2 = Inr (0, Some (no_of_drivers w + 1)) \<and>
        driverTable w2 ! nat (no_of_drivers w) =
          driver_functions.extend A \<lparr>prefix = p\<rparr> \<and>
        driverTable w2 ! nat (no_of_drivers w + 1) =
          driver_functions.extend B \<lparr>prefix = p\<rparr>)"
proof (intro conjI impI)
  assume le: "no_of_drivers w \<le> int (length (driverTable w))"
  let ?k = "nat (no_of_drivers w)"
  have k: "?k \<le> length (driverTable w)" using le by simp
  from urltype2driver_loop_cases[OF k, of u]
  show "(\<exists>ii. urltype2driver u w = Inr (0, Some ii) \<and> 0 \<le> ii \<and> ii < no_of_drivers w \<and>
            prefix (driverTable w ! nat ii) = u \<and>
            (\<forall>jj. ii < jj \<and> jj < no_of_drivers w \<longrightarrow> prefix (driverTable w ! nat jj) \<noteq> u))
      \<or> urltype2driver u w = Inr (NO_MATCHING_DRIVER, None) \<and>
        (\<forall>jj. 0 \<le> jj \<and> jj < no_of_drivers w \<longrightarrow> prefix (driverTable w ! nat jj) \<noteq> u)"
  proof
    assume "\<exists>ii. urltype2driver_loop (driverTable w) u ?k = Inr (0, Some ii)"
    then obtain ii where ii: "urltype2driver_loop (driverTable w) u ?k = Inr (0, Some ii)" ..
    from urltype2driver_loop_found[OF ii k]
    have f: "0 \<le> ii" "ii < int ?k" "prefix (driverTable w ! nat ii) = u"
      "\<forall>jj. ii < jj \<and> jj < int ?k \<longrightarrow> prefix (driverTable w ! nat jj) \<noteq> u"
      by blast+
    from f(1,2) have "int ?k = no_of_drivers w" by (cases "0 \<le> no_of_drivers w") simp_all
    with f
    have "0 \<le> ii \<and> ii < no_of_drivers w \<and> prefix (driverTable w ! nat ii) = u \<and>
      (\<forall>jj. ii < jj \<and> jj < no_of_drivers w \<longrightarrow> prefix (driverTable w ! nat jj) \<noteq> u)"
      by simp
    with ii show ?thesis unfolding urltype2driver_def by blast
  next
    assume a: "urltype2driver_loop (driverTable w) u ?k = Inr (NO_MATCHING_DRIVER, None) \<and>
       (\<forall>jj<?k. prefix (driverTable w ! jj) \<noteq> u)"
    have "\<And>jj. 0 \<le> jj \<Longrightarrow> jj < no_of_drivers w \<Longrightarrow> prefix (driverTable w ! nat jj) \<noteq> u"
    proof -
      fix jj :: int assume "0 \<le> jj" "jj < no_of_drivers w"
      then have "nat jj < ?k" by simp
      with a show "prefix (driverTable w ! nat jj) \<noteq> u" by blast
    qed
    with a show ?thesis unfolding urltype2driver_def by blast
  qed
next
  assume a: "length p < MAX_PREFIX_LEN \<and>
        fits_register_driver (Some p) A w = Inr (0, w1) \<and>
        fits_register_driver (Some p) B w1 = Inr (0, w2)"
  then have tk: "take (MAX_PREFIX_LEN - 1) p = p" "take (MAX_PREFIX_LEN - Suc 0) p = p"
    by (simp_all add: MAX_PREFIX_LEN_def)
  from a register_success[of p A w w1]
  have 1: "0 \<le> no_of_drivers w" "no_of_drivers w < int (length (driverTable w))"
    "no_of_drivers w1 = no_of_drivers w + 1"
    "driverTable w1 = (driverTable w)[nat (no_of_drivers w) := driver_functions.extend A \<lparr>prefix = p\<rparr>]"
    by (simp_all add: tk)
  from a register_success[of p B w1 w2]
  have 2: "no_of_drivers w1 < int (length (driverTable w1))"
    "no_of_drivers w2 = no_of_drivers w1 + 1"
    "driverTable w2 = (driverTable w1)[nat (no_of_drivers w1) := driver_functions.extend B \<lparr>prefix = p\<rparr>]"
    by (simp_all add: tk)
  let ?n = "nat (no_of_drivers w)"
  have n1: "nat (no_of_drivers w1) = Suc ?n" using 1 by simp
  have n2: "nat (no_of_drivers w2) = Suc (Suc ?n)" using 1 2 by simp
  have len: "Suc ?n < length (driverTable w2)" using 1 2 n1 by simp
  have top: "driverTable w2 ! Suc ?n = driver_functions.extend B \<lparr>prefix = p\<rparr>"
    using 1 2 n1 len by simp
  have below: "driverTable w2 ! ?n = driver_functions.extend A \<lparr>prefix = p\<rparr>"
    using 1 2 n1 len by simp
  have pre: "prefix (driverTable w2 ! Suc ?n) = p"
    unfolding top by (simp add: driver_functions.extend_def)
  have "urltype2driver p w2 = Inr (0, Some (int (Suc ?n)))"
    unfolding urltype2driver_def n2 using len pre by simp
  moreover have "int (Suc ?n) = no_of_drivers w + 1" using 1 by simp
  moreover have "nat (no_of_drivers w + 1) = Suc ?n" using 1 by simp
  ultimately show "urltype2driver p w2 = Inr (0, Some (no_of_drivers w + 1))"
    "driverTable w2 ! nat (no_of_drivers w) = driver_functions.extend A \<lparr>prefix = p\<rparr>"
    "driverTable w2 ! nat (no_of_drivers w + 1) = driver_functions.extend B \<lparr>prefix = p\<rparr>"
    using top below by simp_all
qed

lemma register_driver_A: "fits_register_driver (Some ''x://'') driver_A (initial_world ()) =
   Inr (0, (initial_world ())\<lparr>driverTable :=
       [driver_functions.extend driver_A \<lparr>prefix = ''x://''\<rparr>] @ replicate 14 zero_driver,
     no_of_drivers := 1\<rparr>)"
  by (simp add: fits_register_driver_def MAX_DRIVERS_def driver_A_def no_functions_def
        initial_world_def MAX_PREFIX_LEN_def eval_nat_numeral)

lemma register_driver_B: "fits_register_driver (Some ''x://'') driver_B ((initial_world ())\<lparr>driverTable :=
       [driver_functions.extend driver_A \<lparr>prefix = ''x://''\<rparr>] @ replicate 14 zero_driver,
     no_of_drivers := 1\<rparr>) = Inr (0, two_drivers)"
  by (simp add: fits_register_driver_def MAX_DRIVERS_def driver_B_def no_functions_def
        initial_world_def MAX_PREFIX_LEN_def eval_nat_numeral two_drivers_def)

text \<open>
  The registry after \<^verbatim>\<open>x://\<close> is registered twice: the search finds entry 1, the
  one registered last, and a type that is not in the table is not found.
\<close>

theorem urltype2driver_most_recent_witness:
  "urltype2driver ''x://'' two_drivers = Inr (0, Some 1) \<and>
   driverTable two_drivers ! 1 = driver_functions.extend driver_B \<lparr>prefix = ''x://''\<rparr> \<and>
   urltype2driver ''y://'' two_drivers = Inr (NO_MATCHING_DRIVER, None)"
proof -
  have len: "length ''x://'' < MAX_PREFIX_LEN" by (simp add: MAX_PREFIX_LEN_def)
  from urltype2driver_most_recent[of "initial_world ()" "''x://''" "''x://''" driver_A _ driver_B two_drivers]
    len register_driver_A register_driver_B
  have 1: "urltype2driver ''x://'' two_drivers = Inr (0, Some 1)"
    "driverTable two_drivers ! 1 = driver_functions.extend driver_B \<lparr>prefix = ''x://''\<rparr>"
    by simp_all
  have le: "no_of_drivers two_drivers \<le> int (length (driverTable two_drivers))"
    by (simp add: two_drivers_def)
  have no: "\<And>jj. 0 \<le> jj \<Longrightarrow> jj < no_of_drivers two_drivers \<Longrightarrow>
      prefix (driverTable two_drivers ! nat jj) = ''x://''"
  proof -
    fix jj :: int assume "0 \<le> jj" "jj < no_of_drivers two_drivers"
    then have "jj = 0 \<or> jj = 1" by (auto simp: two_drivers_def)
    then show "prefix (driverTable two_drivers ! nat jj) = ''x://''"
      by (auto simp: two_drivers_def driver_functions.extend_def)
  qed
  from urltype2driver_most_recent[of two_drivers "''y://''" "''x://''" driver_A two_drivers driver_B two_drivers] le
  have "(\<exists>ii. urltype2driver ''y://'' two_drivers = Inr (0, Some ii) \<and> 0 \<le> ii \<and> ii < no_of_drivers two_drivers \<and>
            prefix (driverTable two_drivers ! nat ii) = ''y://'' \<and>
            (\<forall>jj. ii < jj \<and> jj < no_of_drivers two_drivers \<longrightarrow> prefix (driverTable two_drivers ! nat jj) \<noteq> ''y://''))
      \<or> urltype2driver ''y://'' two_drivers = Inr (NO_MATCHING_DRIVER, None) \<and>
        (\<forall>jj. 0 \<le> jj \<and> jj < no_of_drivers two_drivers \<longrightarrow> prefix (driverTable two_drivers ! nat jj) \<noteq> ''y://'')"
    by blast
  then have 2: "urltype2driver ''y://'' two_drivers = Inr (NO_MATCHING_DRIVER, None)"
    using no by force
  show ?thesis using 1 2 by simp
qed

subsection \<open>The functions on strings\<close>

lemma strchr_None_iff: "strchr s c = None \<longleftrightarrow> c \<notin> set s"
  by (induction s) auto

lemma strchr_Some:
  "strchr s c = Some k \<Longrightarrow> k < length s \<and> s ! k = c \<and> c \<notin> set (take k s)"
proof (induction s arbitrary: k)
  case Nil
  then show ?case by simp
next
  case (Cons x xs)
  show ?case
  proof (cases "x = c")
    case True
    with Cons.prems show ?thesis by simp
  next
    case False
    with Cons.prems obtain k' where k': "strchr xs c = Some k'" "k = Suc k'" by auto
    with Cons.IH[of k'] False show ?thesis by simp
  qed
qed

lemma strstr_None:
  assumes "pat \<noteq> []" "hd pat \<notin> set s"
  shows "strstr s pat = None"
  using assms
proof (induction s)
  case Nil
  then show ?case by simp
next
  case (Cons x xs)
  have "take (length pat) (x # xs) \<noteq> pat"
  proof
    assume "take (length pat) (x # xs) = pat"
    then have "hd pat = x" using Cons.prems(1) by (cases pat) auto
    with Cons.prems(2) show False by simp
  qed
  with Cons show ?case by simp
qed

lemma skip_blanks_blank: "set s \<subseteq> {CHR '' ''} \<Longrightarrow> skip_blanks s = []"
  by (auto simp: skip_blanks_def)

lemma strip_blanks_from_take:
  "k < length s \<Longrightarrow> \<exists>m. 0 < m \<and> m \<le> length s \<and> strip_blanks_from s k = take m s"
proof (induction k arbitrary: s)
  case 0
  then show ?case by (intro exI[of _ "length s"]) simp
next
  case (Suc k)
  show ?case
  proof (cases "s ! Suc k = CHR '' ''")
    case True
    have "k < length (take (Suc k) s)" using Suc.prems by simp
    from Suc.IH[OF this] obtain m where m: "0 < m" "m \<le> length (take (Suc k) s)"
      "strip_blanks_from (take (Suc k) s) k = take m (take (Suc k) s)" by blast
    then have "m \<le> Suc k" by simp
    then have "take m (take (Suc k) s) = take m s" by (simp add: min_def)
    with m True Suc.prems show ?thesis by (intro exI[of _ m]) simp
  next
    case False
    then show ?thesis using Suc.prems by (intro exI[of _ "length s"]) auto
  qed
qed

lemma strip_trailing_blanks_hd:
  assumes "s \<noteq> []"
  shows "strip_trailing_blanks s \<noteq> [] \<and> hd (strip_trailing_blanks s) = hd s"
proof -
  have "length s - 1 < length s" using assms by (cases s) simp_all
  from strip_blanks_from_take[OF this] obtain m where
    "0 < m" "m \<le> length s" "strip_trailing_blanks s = take m s"
    unfolding strip_trailing_blanks_def by blast
  then show ?thesis using assms by (cases s; cases m) simp_all
qed

lemma strip_trailing_blanks_Nil [simp]: "strip_trailing_blanks [] = []"
  by (simp add: strip_trailing_blanks_def)

lemma search_backwards_bounds:
  "- 1 \<le> search_backwards c s k \<and> search_backwards c s k < int k"
  by (induction k) auto

lemma search_backwards_none:
  "c \<notin> set s \<Longrightarrow> k \<le> length s \<Longrightarrow> search_backwards c s k = - 1"
  by (induction k) auto

lemma search_backwards_last:
  assumes "c \<notin> set ds" "m \<le> length ds"
  shows "search_backwards c (base @ c # ds) (Suc (length base + m)) = int (length base)"
  using assms(2)
proof (induction m)
  case 0
  then show ?case by simp
next
  case (Suc m)
  then have "m < length ds" by simp
  then have "ds ! m \<noteq> c" using assms(1) by (metis nth_mem)
  moreover have "(base @ c # ds) ! Suc (length base + m) = ds ! m"
    by (simp add: nth_append)
  ultimately show ?case using Suc by simp
qed

lemma search_backwards_split:
  "c \<notin> set ds \<Longrightarrow>
   search_backwards c (base @ c # ds) (length (base @ c # ds)) = int (length base)"
  using search_backwards_last[of c ds "length ds" base] by simp

lemma url_prefix_suffix: "set (snd (url_prefix s)) \<subseteq> set s"
  by (auto simp: url_prefix_def split: option.splits dest: in_set_dropD)

lemma input_names_plain:
  "CHR ''['' \<notin> set p \<Longrightarrow> CHR ''('' \<notin> set p \<Longrightarrow> input_names p = Some (p, None)"
  by (simp add: input_names_def strchr_None_iff [THEN iffD2])

lemma nth_char_Nil [simp]: "nth_char [] i = CHR 0x00"
  by (simp add: nth_char_def)

lemma clear_string_simps [simp]:
  "clear_string None = None" "clear_string (Some s) = Some []"
  "map_option strip_trailing_blanks (clear_string p) = clear_string p"
  "clear_string p \<noteq> None \<longrightarrow> the (clear_string p) = []"
  by (cases p; simp add: clear_string_def)+

text \<open>
  \<^verbatim>\<open>ffiurl\<close> on a string without \<^verbatim>\<open>[\<close> and \<^verbatim>\<open>(\<close>: only the type of the URL, the name of
  the file and the test of the \<open>filename+n\<close> convention are left.
\<close>

lemma ffiurl_plain:
  assumes "CHR ''['' \<notin> set s" "CHR ''('' \<notin> set s" "s \<noteq> []" "status \<le> 0"
  shows "ffiurl s out True status =
     (let name = strip_trailing_blanks (snd (url_prefix s));
          ii = search_backwards CHR ''+'' name (length name)
      in if plus_extension name ii \<and> ii < 0 then Inl Out_of_bounds_write
         else Inr (status,
           \<lparr>urltype = strcat_to (clear_string (urltype out)) (fst (url_prefix s)),
            infile = strcpy_to (clear_string (infile out))
                       (if plus_extension name ii then take (nat ii) name else name),
            outfile = clear_string (outfile out),
            extspec = (if plus_extension name ii
                       then strcpy_to (clear_string (extspec out)) (drop (nat (ii + 1)) name)
                       else clear_string (extspec out)),
            rowfilter = clear_string (rowfilter out),
            binspec = clear_string (binspec out),
            colspec = clear_string (colspec out)\<rparr>))"
proof -
  let ?p = "snd (url_prefix s)"
  have nb: "CHR ''['' \<notin> set ?p" "CHR ''('' \<notin> set ?p"
    using assms(1,2) url_prefix_suffix[of s] by auto
  have names: "input_names ?p = Some (?p, None)" using nb by (rule input_names_plain)
  have nobr: "strchr ?p CHR ''['' = None" using nb by (simp add: strchr_None_iff)
  show ?thesis
  proof (cases "plus_extension (strip_trailing_blanks ?p)
                  (search_backwards CHR ''+'' (strip_trailing_blanks ?p)
                     (length (strip_trailing_blanks ?p)))")
    case True
    then show ?thesis
      unfolding ffiurl_def using assms(3,4)
      by (cases "outfile out") (simp_all add: names nobr Let_def)
  next
    case False
    then show ?thesis
      unfolding ffiurl_def using assms(3,4)
      by (cases "outfile out") (simp_all add: names nobr Let_def)
  qed
qed

subsection \<open>\<^verbatim>\<open>ffiurl\<close> on names without brackets and parentheses\<close>

lemma isdigit_plus: "\<not> isdigit CHR ''+''"
  by (simp add: isdigit_def)

lemma digits_no_plus: "list_all isdigit ds \<Longrightarrow> CHR ''+'' \<notin> set ds"
  using isdigit_plus by (induction ds) auto

lemma seven_buffers_cleared:
  "\<lparr>urltype = strcat_to (clear_string (urltype seven_buffers)) u,
    infile = strcpy_to (clear_string (infile seven_buffers)) n,
    outfile = clear_string (outfile seven_buffers),
    extspec = e,
    rowfilter = clear_string (rowfilter seven_buffers),
    binspec = clear_string (binspec seven_buffers),
    colspec = clear_string (colspec seven_buffers)\<rparr>
   = seven_buffers\<lparr>urltype := Some u, infile := Some n, extspec := e\<rparr>"
  by (simp add: seven_buffers_def strcat_to_def strcpy_to_def)

text \<open>A \<^verbatim>\<open>+\<close> that is not the first character, followed by at most 3 digits, is cut off.\<close>

lemma ffiurl_plus_digits:
  assumes "CHR ''['' \<notin> set s" "CHR ''('' \<notin> set s" "s \<noteq> []" "status \<le> 0"
    and "strip_trailing_blanks (snd (url_prefix s)) = base @ CHR ''+'' # ds"
    and "base \<noteq> []" "list_all isdigit ds" "length ds \<le> 3"
  shows "ffiurl s seven_buffers True status =
           Inr (status, seven_buffers\<lparr>urltype := Some (fst (url_prefix s)),
                                      infile := Some base, extspec := Some ds\<rparr>)"
proof -
  let ?name = "base @ CHR ''+'' # ds"
  have ii: "search_backwards CHR ''+'' ?name (length ?name) = int (length base)"
    using assms(7) by (intro search_backwards_split digits_no_plus)
  have n: "nat (int (length base) + 1) = Suc (length base)" by simp
  have pe: "plus_extension ?name (int (length base))"
    using assms(6,7,8) unfolding plus_extension_def n by simp
  show ?thesis
    unfolding ffiurl_plain[OF assms(1-4)] assms(5) Let_def ii
    using pe by (simp add: seven_buffers_cleared n) (simp add: seven_buffers_def strcpy_to_def)
qed

text \<open>
  Behind the last \<^verbatim>\<open>+\<close> stand more than 3 characters or a character that is not a
  digit, or the \<^verbatim>\<open>+\<close> is the first character: nothing is cut off.
\<close>

lemma ffiurl_plus_kept:
  assumes "CHR ''['' \<notin> set s" "CHR ''('' \<notin> set s" "s \<noteq> []" "status \<le> 0"
    and "strip_trailing_blanks (snd (url_prefix s)) = base @ CHR ''+'' # ds"
    and "CHR ''+'' \<notin> set ds"
    and "base = [] \<or> 3 < length ds \<or> \<not> list_all isdigit ds"
  shows "ffiurl s seven_buffers True status =
           Inr (status, seven_buffers\<lparr>urltype := Some (fst (url_prefix s)),
                                      infile := Some (base @ CHR ''+'' # ds)\<rparr>)"
proof -
  let ?name = "base @ CHR ''+'' # ds"
  have ii: "search_backwards CHR ''+'' ?name (length ?name) = int (length base)"
    using assms(6) by (rule search_backwards_split)
  have n: "nat (int (length base) + 1) = Suc (length base)" by simp
  have pe: "\<not> plus_extension ?name (int (length base))"
    using assms(7) unfolding plus_extension_def n by auto
  show ?thesis
    unfolding ffiurl_plain[OF assms(1-4)] assms(5) Let_def ii
    using pe by (simp add: seven_buffers_cleared n) (simp add: seven_buffers_def)
qed

text \<open>No \<^verbatim>\<open>+\<close> in the name, which is not a run of fewer than 4 digits.\<close>

lemma ffiurl_no_plus:
  assumes "CHR ''['' \<notin> set s" "CHR ''('' \<notin> set s" "s \<noteq> []" "status \<le> 0"
    and "CHR ''+'' \<notin> set (strip_trailing_blanks (snd (url_prefix s)))"
    and "\<not> (length (strip_trailing_blanks (snd (url_prefix s))) < 4 \<and>
            list_all isdigit (strip_trailing_blanks (snd (url_prefix s))))"
  shows "ffiurl s seven_buffers True status =
           Inr (status, seven_buffers\<lparr>urltype := Some (fst (url_prefix s)),
                  infile := Some (strip_trailing_blanks (snd (url_prefix s)))\<rparr>)"
proof -
  let ?name = "strip_trailing_blanks (snd (url_prefix s))"
  have ii: "search_backwards CHR ''+'' ?name (length ?name) = - 1"
    using assms(5) by (intro search_backwards_none) simp_all
  have pe: "\<not> plus_extension ?name (- 1)"
    using assms(6) by (auto simp: plus_extension_def)
  show ?thesis
    unfolding ffiurl_plain[OF assms(1-4)] Let_def ii
    using pe by (simp add: seven_buffers_cleared) (simp add: seven_buffers_def)
qed

text \<open>
  C8.  The claim is that for every string without \<^verbatim>\<open>[\<close> and \<^verbatim>\<open>(\<close> the \<^verbatim>\<open>infile\<close> is the
  string without its prefix and the \<^verbatim>\<open>extspec\<close> is empty.  For \<open>x.fits+3\<close> the \<^verbatim>\<open>infile\<close>
  is \<open>x.fits\<close> and the \<^verbatim>\<open>extspec\<close> is \<open>3\<close>; for \<open>a.fits\<close> followed by a blank the
  \<^verbatim>\<open>infile\<close> is \<open>a.fits\<close>, without the blank.
\<close>

theorem ffiurl_without_brackets_counterexample:
  "CHR ''['' \<notin> set ''x.fits+3'' \<and> CHR ''('' \<notin> set ''x.fits+3'' \<and>
   snd (url_prefix ''x.fits+3'') = ''x.fits+3'' \<and>
   ffiurl ''x.fits+3'' seven_buffers True 0 =
     Inr (0, seven_buffers\<lparr>urltype := Some ''file://'', infile := Some ''x.fits'',
                            extspec := Some ''3''\<rparr>) \<and>
   CHR ''['' \<notin> set ''a.fits '' \<and> CHR ''('' \<notin> set ''a.fits '' \<and>
   snd (url_prefix ''a.fits '') = ''a.fits '' \<and>
   ffiurl ''a.fits '' seven_buffers True 0 =
     Inr (0, seven_buffers\<lparr>urltype := Some ''file://'', infile := Some ''a.fits''\<rparr>)"
proof -
  have 1: "CHR ''['' \<notin> set ''x.fits+3''" and 2: "CHR ''('' \<notin> set ''x.fits+3''"
    and 5: "CHR ''['' \<notin> set ''a.fits ''" and 6: "CHR ''('' \<notin> set ''a.fits ''"
    by simp_all
  have 3: "snd (url_prefix ''x.fits+3'') = ''x.fits+3''"
    and 7: "snd (url_prefix ''a.fits '') = ''a.fits ''"
    by code_simp+
  have 4: "ffiurl ''x.fits+3'' seven_buffers True 0 =
     Inr (0, seven_buffers\<lparr>urltype := Some ''file://'', infile := Some ''x.fits'',
                            extspec := Some ''3''\<rparr>)"
    by code_simp
  have 8: "ffiurl ''a.fits '' seven_buffers True 0 =
     Inr (0, seven_buffers\<lparr>urltype := Some ''file://'', infile := Some ''a.fits''\<rparr>)"
    by code_simp
  show ?thesis by (intro conjI 1 2 3 4 5 6 7 8)
qed

lemma last_plus_unique:
  fixes c :: char
  assumes "b @ c # d = b' @ c # d'" "c \<notin> set d" "c \<notin> set d'"
  shows "b = b' \<and> d = d'"
proof -
  have "int (length b) = search_backwards c (b @ c # d) (length (b @ c # d))"
    using assms(2) by (rule search_backwards_split[symmetric])
  also have "\<dots> = search_backwards c (b' @ c # d') (length (b' @ c # d'))"
    using assms(1) by simp
  also have "\<dots> = int (length b')"
    using assms(3) by (rule search_backwards_split)
  finally have "length b = length b'" by simp
  with assms(1) show ?thesis by simp
qed


text \<open>
  C8, amended.  Let \<open>s\<close> be a string that is not empty and contains neither \<^verbatim>\<open>[\<close> nor
  \<^verbatim>\<open>(\<close>, parsed with a status that is not positive into seven strings, and let \<open>name\<close>
  be \<open>s\<close> without its prefix and without its trailing blanks.  Let \<open>name\<close> not be a
  run of fewer than 4 digits (the empty name is such a run).  Then the parse returns
  the status it was given; \<^verbatim>\<open>urltype\<close> is the prefix, and \<^verbatim>\<open>outfile\<close>, \<^verbatim>\<open>rowfilter\<close>,
  \<^verbatim>\<open>binspec\<close> and \<^verbatim>\<open>colspec\<close> are empty.  If \<open>name\<close> ends with a \<^verbatim>\<open>+\<close> that is not its
  first character and at most 3 digits behind it, \<^verbatim>\<open>infile\<close> is the part before the
  \<^verbatim>\<open>+\<close> and \<^verbatim>\<open>extspec\<close> the digits.  If \<open>name\<close> has no \<^verbatim>\<open>+\<close>, or if its last \<^verbatim>\<open>+\<close> is its
  first character, or if more than 4 characters or a character that is not a digit
  stand behind its last \<^verbatim>\<open>+\<close>, then \<^verbatim>\<open>infile\<close> is \<open>name\<close> and \<^verbatim>\<open>extspec\<close> is empty.
  Nothing is said about \<^verbatim>\<open>infile\<close> and \<^verbatim>\<open>extspec\<close> for a \<^verbatim>\<open>+\<close> with exactly 4 digits
  behind it.
\<close>

theorem ffiurl_without_brackets:
  assumes "CHR ''['' \<notin> set s" "CHR ''('' \<notin> set s" "s \<noteq> []" "status \<le> 0"
    and "name = strip_trailing_blanks (snd (url_prefix s))"
    and "\<not> (length name < 4 \<and> list_all isdigit name)"
  shows "\<exists>inf ext.
           ffiurl s seven_buffers True status =
             Inr (status, seven_buffers\<lparr>urltype := Some (fst (url_prefix s)),
                                        infile := Some inf, extspec := Some ext\<rparr>) \<and>
           (name = base @ CHR ''+'' # ds \<and> base \<noteq> [] \<and> list_all isdigit ds \<and> length ds \<le> 3 \<longrightarrow>
              inf = base \<and> ext = ds) \<and>
           (name = base @ CHR ''+'' # ds \<and> CHR ''+'' \<notin> set ds \<and>
              (base = [] \<or> 4 < length ds \<or> \<not> list_all isdigit ds) \<longrightarrow>
              inf = name \<and> ext = []) \<and>
           (CHR ''+'' \<notin> set name \<longrightarrow> inf = name \<and> ext = [])"
proof (cases "CHR ''+'' \<in> set name")
  case False
  have "ffiurl s seven_buffers True status =
          Inr (status, seven_buffers\<lparr>urltype := Some (fst (url_prefix s)),
                                     infile := Some name\<rparr>)"
    using assms False ffiurl_no_plus[of s status] by simp
  then have "ffiurl s seven_buffers True status =
          Inr (status, seven_buffers\<lparr>urltype := Some (fst (url_prefix s)),
                                     infile := Some name, extspec := Some []\<rparr>)"
    by (simp add: seven_buffers_def)
  with False show ?thesis by auto
next
  case True
  then obtain b d where bd: "name = b @ CHR ''+'' # d" "CHR ''+'' \<notin> set d"
    using split_list_last by fastforce
  show ?thesis
  proof (cases "b \<noteq> [] \<and> list_all isdigit d \<and> length d \<le> 3")
    case cut: True
    have r: "ffiurl s seven_buffers True status =
            Inr (status, seven_buffers\<lparr>urltype := Some (fst (url_prefix s)),
                                       infile := Some b, extspec := Some d\<rparr>)"
      using assms(1-5) bd cut by (intro ffiurl_plus_digits) simp_all
    have 1: "name = base @ CHR ''+'' # ds \<and> base \<noteq> [] \<and> list_all isdigit ds \<and> length ds \<le> 3 \<longrightarrow>
              b = base \<and> d = ds"
      using bd last_plus_unique[of b "CHR ''+''" d base ds] digits_no_plus[of ds] by auto
    have 2: "\<not> (name = base @ CHR ''+'' # ds \<and> CHR ''+'' \<notin> set ds \<and>
              (base = [] \<or> 4 < length ds \<or> \<not> list_all isdigit ds))"
      using bd cut last_plus_unique[of b "CHR ''+''" d base ds] by auto
    from r 1 2 True show ?thesis by blast
  next
    case kept: False
    have "ffiurl s seven_buffers True status =
            Inr (status, seven_buffers\<lparr>urltype := Some (fst (url_prefix s)),
                                       infile := Some (b @ CHR ''+'' # d)\<rparr>)"
      using assms(1-5) bd kept by (intro ffiurl_plus_kept) auto
    then have r: "ffiurl s seven_buffers True status =
            Inr (status, seven_buffers\<lparr>urltype := Some (fst (url_prefix s)),
                                       infile := Some name, extspec := Some []\<rparr>)"
      using bd by (simp add: seven_buffers_def)
    have 1: "\<not> (name = base @ CHR ''+'' # ds \<and> base \<noteq> [] \<and> list_all isdigit ds \<and> length ds \<le> 3)"
      using bd kept last_plus_unique[of b "CHR ''+''" d base ds] digits_no_plus[of ds] by auto
    from r 1 True show ?thesis by blast
  qed
qed

text \<open>
  The three cases at \<open>x.fits+3\<close>, at \<open>x.fits+12345\<close> and at \<open>ftp:a.fits\<close> followed by
  two blanks.
\<close>

theorem ffiurl_without_brackets_witness:
  "ffiurl ''x.fits+3'' seven_buffers True 0 =
     Inr (0, seven_buffers\<lparr>urltype := Some ''file://'', infile := Some ''x.fits'',
                            extspec := Some ''3''\<rparr>) \<and>
   ffiurl ''x.fits+12345'' seven_buffers True 0 =
     Inr (0, seven_buffers\<lparr>urltype := Some ''file://'', infile := Some ''x.fits+12345'',
                            extspec := Some []\<rparr>) \<and>
   ffiurl ''ftp:a.fits  '' seven_buffers True 0 =
     Inr (0, seven_buffers\<lparr>urltype := Some ''ftp://'', infile := Some ''a.fits'',
                            extspec := Some []\<rparr>)"
proof -
  have p1: "url_prefix ''x.fits+3'' = (''file://'', ''x.fits+3'')"
    and p2: "url_prefix ''x.fits+12345'' = (''file://'', ''x.fits+12345'')"
    and p3: "url_prefix ''ftp:a.fits  '' = (''ftp://'', ''a.fits  '')"
    by (simp_all add: url_prefix_def nth_char_def)
  have s1: "strip_trailing_blanks ''x.fits+3'' = ''x.fits'' @ CHR ''+'' # ''3''"
    and s2: "strip_trailing_blanks ''x.fits+12345'' = ''x.fits'' @ CHR ''+'' # ''12345''"
    and s3: "strip_trailing_blanks ''a.fits  '' = ''a.fits''"
    by (simp_all add: strip_trailing_blanks_def)
  have 1: "ffiurl ''x.fits+3'' seven_buffers True 0 =
     Inr (0, seven_buffers\<lparr>urltype := Some ''file://'', infile := Some ''x.fits'',
                            extspec := Some ''3''\<rparr>)"
    using ffiurl_without_brackets[of "''x.fits+3''" 0 "''x.fits+3''" "''x.fits''" "''3''"]
    by (simp add: p1 s1 isdigit_def)
  have 2: "ffiurl ''x.fits+12345'' seven_buffers True 0 =
     Inr (0, seven_buffers\<lparr>urltype := Some ''file://'', infile := Some ''x.fits+12345'',
                            extspec := Some []\<rparr>)"
    using ffiurl_without_brackets[of "''x.fits+12345''" 0 "''x.fits+12345''" "''x.fits''" "''12345''"]
    by (simp add: p2 s2 isdigit_def)
  have 3: "ffiurl ''ftp:a.fits  '' seven_buffers True 0 =
     Inr (0, seven_buffers\<lparr>urltype := Some ''ftp://'', infile := Some ''a.fits'',
                            extspec := Some []\<rparr>)"
    using ffiurl_without_brackets[of "''ftp:a.fits  ''" 0 "''a.fits''" "[]" "[]"]
    by (simp add: p3 s3 isdigit_def)
  show ?thesis using 1 2 3 by simp
qed

text \<open>
  C3.  The claim is that a \<^verbatim>\<open>+\<close> with a run of 1 to 4 digits is cut off the name.
  With 4 digits nothing is cut off: for \<open>x.fits+1234\<close> the \<^verbatim>\<open>infile\<close> is the whole
  string and the \<^verbatim>\<open>extspec\<close> is empty.  (\<open>x.fits+3\<close> is parsed as the claim says, and so
  is \<open>x.fits+123\<close>.)
\<close>

theorem ffiurl_plus_four_digits:
  "ffiurl ''x.fits+1234'' seven_buffers True 0 =
     Inr (0, \<lparr>urltype = Some ''file://'', infile = Some ''x.fits+1234'', outfile = Some [],
              extspec = Some [], rowfilter = Some [], binspec = Some [], colspec = Some []\<rparr>)
   \<and> ffiurl ''x.fits+123'' seven_buffers True 0 =
     Inr (0, \<lparr>urltype = Some ''file://'', infile = Some ''x.fits'', outfile = Some [],
              extspec = Some ''123'', rowfilter = Some [], binspec = Some [], colspec = Some []\<rparr>)
   \<and> ffiurl ''x.fits+3'' seven_buffers True 0 =
     Inr (0, \<lparr>urltype = Some ''file://'', infile = Some ''x.fits'', outfile = Some [],
              extspec = Some ''3'', rowfilter = Some [], binspec = Some [], colspec = Some []\<rparr>)"
proof -
  have 1: "ffiurl ''x.fits+1234'' seven_buffers True 0 =
     Inr (0, \<lparr>urltype = Some ''file://'', infile = Some ''x.fits+1234'', outfile = Some [],
              extspec = Some [], rowfilter = Some [], binspec = Some [], colspec = Some []\<rparr>)"
    by code_simp
  have 2: "ffiurl ''x.fits+123'' seven_buffers True 0 =
     Inr (0, \<lparr>urltype = Some ''file://'', infile = Some ''x.fits'', outfile = Some [],
              extspec = Some ''123'', rowfilter = Some [], binspec = Some [], colspec = Some []\<rparr>)"
    by code_simp
  have 3: "ffiurl ''x.fits+3'' seven_buffers True 0 =
     Inr (0, \<lparr>urltype = Some ''file://'', infile = Some ''x.fits'', outfile = Some [],
              extspec = Some ''3'', rowfilter = Some [], binspec = Some [], colspec = Some []\<rparr>)"
    by code_simp
  show ?thesis by (intro conjI 1 2 3)
qed

subsection \<open>Blank names\<close>

lemma blank_Cons:
  assumes "set s \<subseteq> {CHR '' ''}" "s \<noteq> []"
  obtains t where "s = CHR '' '' # t" "set t \<subseteq> {CHR '' ''}"
  using assms by (cases s) auto

lemma blank_url_prefix:
  assumes "set url \<subseteq> {CHR '' ''}" "url \<noteq> []"
  shows "url_prefix url = (''file://'', url)"
proof -
  from assms obtain t where t: "url = CHR '' '' # t" by (rule blank_Cons)
  have "strstr url ''://'' = None" using assms(1) by (intro strstr_None) auto
  then show ?thesis unfolding url_prefix_def by (simp add: t nth_char_def)
qed

lemma strip_blanks_from_blank:
  "set s \<subseteq> {CHR '' ''} \<Longrightarrow> length s = Suc k \<Longrightarrow> strip_blanks_from s k = take 1 s"
proof (induction k arbitrary: s)
  case 0
  then show ?case by simp
next
  case (Suc k)
  have "s ! Suc k \<in> set s" using Suc.prems(2) by (intro nth_mem) simp
  then have b: "s ! Suc k = CHR '' ''" using Suc.prems(1) by auto
  have "set (take (Suc k) s) \<subseteq> {CHR '' ''}"
    using Suc.prems(1) by (meson in_set_takeD subset_iff)
  moreover have "length (take (Suc k) s) = Suc k" using Suc.prems(2) by simp
  ultimately have "strip_blanks_from (take (Suc k) s) k = take 1 (take (Suc k) s)"
    by (rule Suc.IH)
  then show ?case using b by simp
qed

lemma strip_trailing_blanks_blank:
  assumes "set s \<subseteq> {CHR '' ''}" "s \<noteq> []"
  shows "strip_trailing_blanks s = '' ''"
proof -
  from assms obtain t where t: "s = CHR '' '' # t" by (rule blank_Cons)
  have "strip_blanks_from s (length s - 1) = take 1 s"
    using assms by (intro strip_blanks_from_blank) (simp_all add: t)
  then show ?thesis by (simp add: strip_trailing_blanks_def t)
qed

lemma ffiurl_blank:
  assumes "set url \<subseteq> {CHR '' ''}" "url \<noteq> []"
  shows "ffiurl url seven_buffers True 0 =
           Inr (0, seven_buffers\<lparr>urltype := Some ''file://'', infile := Some '' ''\<rparr>)"
proof -
  have 1: "CHR ''['' \<notin> set url" "CHR ''('' \<notin> set url" using assms(1) by auto
  have 2: "CHR ''+'' \<notin> set (strip_trailing_blanks (snd (url_prefix url)))"
    by (simp add: blank_url_prefix[OF assms] strip_trailing_blanks_blank[OF assms])
  have 3: "\<not> (length (strip_trailing_blanks (snd (url_prefix url))) < 4 \<and>
            list_all isdigit (strip_trailing_blanks (snd (url_prefix url))))"
    by (simp add: blank_url_prefix[OF assms] strip_trailing_blanks_blank[OF assms] isdigit_def)
  from ffiurl_no_plus[OF 1 assms(2) _ 2 3, of 0]
  show ?thesis
    by (simp add: blank_url_prefix[OF assms] strip_trailing_blanks_blank[OF assms])
qed

lemma ffiurl_empty:
  "ffiurl [] out mem_ok 0 =
     Inr (0, \<lparr>urltype = clear_string (urltype out), infile = clear_string (infile out),
              outfile = clear_string (outfile out), extspec = clear_string (extspec out),
              rowfilter = clear_string (rowfilter out),
              binspec = clear_string (binspec out), colspec = clear_string (colspec out)\<rparr>)"
  by (simp add: ffiurl_def)

lemma ffopen_blank:
  assumes "set name \<subseteq> {CHR '' ''}" "status \<le> 0"
    and "(if need_to_initialize w then fits_init_cfitsio env w else Inr (status, w)) = Inr (st1, w1)"
    and "st1 \<le> 0"
  shows "ffopen env fptr0 name mode status w = Some (Inr ((FILE_NOT_OPENED, None), w1))"
  using assms(2,4) unfolding ffopen_def assms(3) skip_blanks_blank[OF assms(1)]
  by simp

lemma ffinit_blank:
  assumes "set name \<subseteq> {CHR '' ''}" "status \<le> 0"
    and "(if need_to_initialize w then fits_init_cfitsio env w else Inr (status, w)) = Inr (st1, w1)"
    and "st1 \<le> 0"
  shows "ffinit env fptr0 name status w = Inr ((FILE_NOT_CREATED, None), w1)"
  using assms(2,4) unfolding ffinit_def assms(3) skip_blanks_blank[OF assms(1)]
  by simp

text \<open>
  C10.  \<^verbatim>\<open>ffiurl\<close> on the empty string, with the status 0, returns 0, and every output
  string that is not NULL is empty afterwards (a NULL pointer stays NULL).  It does
  not reject a name of blanks either: it returns 0, with the type \<open>file://\<close> and a
  name of one blank.  \<^verbatim>\<open>ffopen\<close> returns \<^verbatim>\<open>FILE_NOT_OPENED\<close> and \<^verbatim>\<open>ffinit\<close> returns
  \<^verbatim>\<open>FILE_NOT_CREATED\<close> for a name that is empty or all blanks, with no handle, when
  they are called with a status that is not positive and the library is initialised
  or its initialisation succeeds.
\<close>

theorem blank_name_rejected_by_ffopen_and_ffinit:
  "ffiurl [] out mem_ok 0 =
     Inr (0, \<lparr>urltype = clear_string (urltype out), infile = clear_string (infile out),
              outfile = clear_string (outfile out), extspec = clear_string (extspec out),
              rowfilter = clear_string (rowfilter out),
              binspec = clear_string (binspec out), colspec = clear_string (colspec out)\<rparr>)
   \<and> (clear_string None = None \<and> clear_string (Some old) = Some [])
   \<and> (set url \<subseteq> {CHR '' ''} \<and> url \<noteq> [] \<longrightarrow>
        ffiurl url seven_buffers True 0 =
          Inr (0, seven_buffers\<lparr>urltype := Some ''file://'', infile := Some '' ''\<rparr>))
   \<and> (set name \<subseteq> {CHR '' ''} \<and> status \<le> 0 \<and> st1 \<le> 0 \<and>
        (if need_to_initialize w then fits_init_cfitsio env w else Inr (status, w)) = Inr (st1, w1)
        \<longrightarrow> ffopen env fptr0 name mode status w = Some (Inr ((FILE_NOT_OPENED, None), w1)) \<and>
            ffinit env fptr0 name status w = Inr ((FILE_NOT_CREATED, None), w1))"
proof (intro conjI impI)
  show "ffiurl [] out mem_ok 0 =
     Inr (0, \<lparr>urltype = clear_string (urltype out), infile = clear_string (infile out),
              outfile = clear_string (outfile out), extspec = clear_string (extspec out),
              rowfilter = clear_string (rowfilter out),
              binspec = clear_string (binspec out), colspec = clear_string (colspec out)\<rparr>)"
    by (rule ffiurl_empty)
  show "clear_string None = None" "clear_string (Some old) = Some []" by simp_all
next
  assume "set url \<subseteq> {CHR '' ''} \<and> url \<noteq> []"
  then show "ffiurl url seven_buffers True 0 =
          Inr (0, seven_buffers\<lparr>urltype := Some ''file://'', infile := Some '' ''\<rparr>)"
    by (intro ffiurl_blank) simp_all
next
  assume a: "set name \<subseteq> {CHR '' ''} \<and> status \<le> 0 \<and> st1 \<le> 0 \<and>
        (if need_to_initialize w then fits_init_cfitsio env w else Inr (status, w)) = Inr (st1, w1)"
  show "ffopen env fptr0 name mode status w = Some (Inr ((FILE_NOT_OPENED, None), w1))"
    by (rule ffopen_blank[of name status w env st1 w1]) (use a in blast)+
  show "ffinit env fptr0 name status w = Inr ((FILE_NOT_CREATED, None), w1)"
    by (rule ffinit_blank[of name status w env st1 w1]) (use a in blast)+
qed

text \<open>A name of two blanks, in the library with two drivers.\<close>

theorem blank_name_rejected_witness:
  "ffiurl ''  '' seven_buffers True 0 =
     Inr (0, seven_buffers\<lparr>urltype := Some ''file://'', infile := Some '' ''\<rparr>) \<and>
   ffopen sample_collaborators None ''  '' READONLY 0 sample_world =
     Some (Inr ((FILE_NOT_OPENED, None), sample_world)) \<and>
   ffinit sample_collaborators None ''  '' 0 sample_world =
     Inr ((FILE_NOT_CREATED, None), sample_world)"
proof -
  have b: "set ''  '' \<subseteq> {CHR '' ''}" "''  '' \<noteq> []" by simp_all
  have i: "(if need_to_initialize sample_world
            then fits_init_cfitsio sample_collaborators sample_world
            else Inr (0, sample_world)) = Inr (0, sample_world)"
    by (simp add: sample_world_def)
  from blank_name_rejected_by_ffopen_and_ffinit
         [of seven_buffers True "[]" "''  ''" "''  ''" 0 0 sample_world sample_collaborators
             sample_world None READONLY]
    b i
  show ?thesis by simp
qed

subsection \<open>The number of the extension\<close>

lemma isdigit_not_isspace: "isdigit c \<Longrightarrow> \<not> isspace c"
  unfolding isdigit_def isspace_def by auto

lemma isdigit_not_sign: "isdigit c \<Longrightarrow> c \<noteq> CHR ''-'' \<and> c \<noteq> CHR ''+'' \<and> c \<noteq> CHR '' ''"
  unfolding isdigit_def by auto

lemma scan_int_digits:
  assumes "ds \<noteq> []" "list_all isdigit ds" "decimal_value ds \<le> 2147483647"
  shows "scan_int ds = Some (Inr (int (decimal_value ds)))"
proof -
  from assms obtain d t where ds: "ds = d # t" "isdigit d" by (cases ds) auto
  have 1: "dropWhile isspace (d # t) = d # t" using ds isdigit_not_isspace by simp
  have 2: "d \<noteq> CHR ''-''" "d \<noteq> CHR ''+''" using ds isdigit_not_sign by auto
  have 3: "takeWhile isdigit t = t"
    using assms(2) unfolding ds by (simp add: list_all_iff)
  have 4: "\<not> 2147483647 < decimal_value (d # t)" using assms(3) unfolding ds by simp
  show ?thesis unfolding scan_int_def ds(1) 1 Let_def
    by (simp add: 2 3 4 ds(2))
qed

text \<open>\<^verbatim>\<open>ffexts\<close> on a number of at most 9999, with blanks in front or not.\<close>

lemma ffexts_number:
  assumes "ds \<noteq> []" "list_all isdigit ds" "decimal_value ds \<le> 9999" "status \<le> 0"
  shows "ffexts (replicate k CHR '' '' @ ds) status =
           Inr (status, \<lparr>extnum = int (decimal_value ds), extname = [], extvers = 0,
                         hdutype = ANY_HDU\<rparr>)"
proof -
  from assms obtain d t where ds: "ds = d # t" "isdigit d" by (cases ds) auto
  have 1: "dropWhile (\<lambda>c. c = CHR '' '') (replicate k CHR '' '' @ ds) = ds"
    using ds isdigit_not_sign by (simp add: dropWhile_append)
  have 2: "isdigit (nth_char ds 0)" using ds by (simp add: nth_char_def)
  have 3: "scan_int ds = Some (Inr (int (decimal_value ds)))"
    using assms by (intro scan_int_digits) simp_all
  show ?thesis unfolding ffexts_def 1 Let_def using 2 3 assms(3,4) by simp
qed

text \<open>
  The four branches of \<^verbatim>\<open>ffextn\<close> after \<^verbatim>\<open>ffiurl\<close> has parsed the URL without an error
  into the parts \<open>p\<close>.  If there is a binning specification, \<^verbatim>\<open>ffextn\<close> returns the
  number 1.  Otherwise, if the extension specification is a decimal number \<open>n\<close> of at
  most 9999 (blanks may stand in front of it), it returns \<open>n + 1\<close>.  If the extension
  specification is one that \<^verbatim>\<open>ffexts\<close> reads as a name and the type of the URL is
  \<open>stdin://\<close>, it returns the status \<^verbatim>\<open>URL_PARSE_ERROR\<close> and leaves the number as it was.
  If there is neither a binning nor an extension specification, it returns the number
  -99.  In the three cases with a number the status is the one of the parse, which is
  not positive.
\<close>

lemma ffextn_number:
  assumes "status \<le> 0" "parse_url (FLEN_FILENAME env) url status w = Inr ((st, p), w1)" "st \<le> 0"
  shows "(the (binspec p) \<noteq> [] \<longrightarrow>
            ffextn env url num0 status w = Some (Inr ((st, 1), w1)))
       \<and> (the (binspec p) = [] \<and> the (extspec p) = replicate k CHR '' '' @ ds \<and> ds \<noteq> [] \<and>
            list_all isdigit ds \<and> decimal_value ds \<le> 9999 \<longrightarrow>
            ffextn env url num0 status w = Some (Inr ((st, int (decimal_value ds) + 1), w1)))
       \<and> (the (binspec p) = [] \<and> the (extspec p) \<noteq> [] \<and>
            ffexts (the (extspec p)) st = Inr (st, e) \<and> extname e \<noteq> [] \<and>
            the (urltype p) = ''stdin://'' \<longrightarrow>
            ffextn env url num0 status w = Some (Inr ((URL_PARSE_ERROR, num0), w1)))
       \<and> (the (binspec p) = [] \<and> the (extspec p) = [] \<longrightarrow>
            ffextn env url num0 status w = Some (Inr ((st, - 99), w1)))"
proof (intro conjI impI)
  assume "the (binspec p) \<noteq> []"
  then show "ffextn env url num0 status w = Some (Inr ((st, 1), w1))"
    unfolding ffextn_def using assms by simp
next
  assume a: "the (binspec p) = [] \<and> the (extspec p) = replicate k CHR '' '' @ ds \<and> ds \<noteq> [] \<and>
            list_all isdigit ds \<and> decimal_value ds \<le> 9999"
  then have "ffexts (the (extspec p)) st =
           Inr (st, \<lparr>extnum = int (decimal_value ds), extname = [], extvers = 0,
                     hdutype = ANY_HDU\<rparr>)"
    using ffexts_number[of ds st k] assms(3) by simp
  then show "ffextn env url num0 status w = Some (Inr ((st, int (decimal_value ds) + 1), w1))"
    unfolding ffextn_def using assms a by simp
next
  assume "the (binspec p) = [] \<and> the (extspec p) \<noteq> [] \<and>
            ffexts (the (extspec p)) st = Inr (st, e) \<and> extname e \<noteq> [] \<and>
            the (urltype p) = ''stdin://''"
  then show "ffextn env url num0 status w = Some (Inr ((URL_PARSE_ERROR, num0), w1))"
    unfolding ffextn_def using assms by simp
next
  assume "the (binspec p) = [] \<and> the (extspec p) = []"
  then show "ffextn env url num0 status w = Some (Inr ((st, - 99), w1))"
    unfolding ffextn_def using assms by simp
qed

lemmas ffiurl_eval =
  ffiurl_def url_prefix_def nth_char_def input_names_def parenthesized_def
  strip_trailing_blanks_def clear_string_def strcat_to_def strcpy_to_def isdigit_def
  plus_extension_def bracket_extension_def ffiurl_filters_def find_binspec_def
  extract_spec_def cut_at_bracket_def tolower_def Let_def seven_buffers_def

text \<open>
  The four cases in the library with two drivers: \<open>data.fits+12\<close> has the number 13, a
  URL with a binning specification the number 1, the extension \<open>EVENTS\<close> of the file
  \<open>x\<close> of the standard input is refused, and \<open>x.fits\<close> has the number -99.
\<close>

lemma ffextn_number_examples:
  "ffextn sample_collaborators ''data.fits+12'' 0 0 sample_world =
     Some (Inr ((0, 13), alloc_done sample_world)) \<and>
   ffextn sample_collaborators ''x.fits[EVENTS][bin x]'' 0 0 sample_world =
     Some (Inr ((0, 1), alloc_done sample_world)) \<and>
   ffextn sample_collaborators ''stdin://x[EVENTS]'' 0 0 sample_world =
     Some (Inr ((URL_PARSE_ERROR, 0), alloc_done sample_world)) \<and>
   ffextn sample_collaborators ''x.fits'' 0 0 sample_world =
     Some (Inr ((0, - 99), alloc_done sample_world))"
proof -
  have ok: "alloc_succeeds sample_world"
    by (simp add: alloc_succeeds_def sample_world_def initial_world_def)
  have flen: "FLEN_FILENAME sample_collaborators = 1025"
    by (simp add: sample_collaborators_def)
  have p1: "parse_url (FLEN_FILENAME sample_collaborators) ''data.fits+12'' 0 sample_world =
     Inr ((0, seven_buffers\<lparr>urltype := Some ''file://'', infile := Some ''data.fits'',
                             extspec := Some ''12''\<rparr>), alloc_done sample_world)"
    by (simp add: parse_url_def ok flen ffiurl_eval ffiurl_copies_def filter_copies_def MAX_PREFIX_LEN_def)
  have p2: "parse_url (FLEN_FILENAME sample_collaborators) ''x.fits[EVENTS][bin x]'' 0 sample_world =
     Inr ((0, seven_buffers\<lparr>urltype := Some ''file://'', infile := Some ''x.fits'',
                             extspec := Some ''EVENTS'', binspec := Some ''bin x''\<rparr>),
          alloc_done sample_world)"
    by (simp add: parse_url_def ok flen ffiurl_eval ffiurl_copies_def filter_copies_def MAX_PREFIX_LEN_def)
  have p3: "parse_url (FLEN_FILENAME sample_collaborators) ''stdin://x[EVENTS]'' 0 sample_world =
     Inr ((0, seven_buffers\<lparr>urltype := Some ''stdin://'', infile := Some ''x'',
                             extspec := Some ''EVENTS''\<rparr>), alloc_done sample_world)"
    by (simp add: parse_url_def ok flen ffiurl_eval ffiurl_copies_def filter_copies_def MAX_PREFIX_LEN_def)
  have p4: "parse_url (FLEN_FILENAME sample_collaborators) ''x.fits'' 0 sample_world =
     Inr ((0, seven_buffers\<lparr>urltype := Some ''file://'', infile := Some ''x.fits''\<rparr>),
          alloc_done sample_world)"
    by (simp add: parse_url_def ok flen ffiurl_eval ffiurl_copies_def filter_copies_def MAX_PREFIX_LEN_def)
  have e3: "ffexts ''EVENTS'' 0 =
     Inr (0, \<lparr>extnum = 0, extname = ''EVENTS'', extvers = 0, hdutype = ANY_HDU\<rparr>)"
    by (simp add: ffexts_def nth_char_def isdigit_def strcspn_def strspn_def)
  have d: "decimal_value ''12'' = 12"
    by (simp add: decimal_value_def digit_value_def)
  have 1: "ffextn sample_collaborators ''data.fits+12'' 0 0 sample_world =
     Some (Inr ((0, 13), alloc_done sample_world))"
    using ffextn_number[OF _ p1, where k = 0 and ds = "''12''" and ?num0.0 = 0]
    by (simp add: seven_buffers_def isdigit_def d)
  have 2: "ffextn sample_collaborators ''x.fits[EVENTS][bin x]'' 0 0 sample_world =
     Some (Inr ((0, 1), alloc_done sample_world))"
    using ffextn_number[OF _ p2, where ?num0.0 = 0]
    by (simp add: seven_buffers_def)
  have 3: "ffextn sample_collaborators ''stdin://x[EVENTS]'' 0 0 sample_world =
     Some (Inr ((URL_PARSE_ERROR, 0), alloc_done sample_world))"
    using ffextn_number[OF _ p3, where ?num0.0 = 0
             and e = "\<lparr>extnum = 0, extname = ''EVENTS'', extvers = 0, hdutype = ANY_HDU\<rparr>"] e3
    by (simp add: seven_buffers_def)
  have 4: "ffextn sample_collaborators ''x.fits'' 0 0 sample_world =
     Some (Inr ((0, - 99), alloc_done sample_world))"
    using ffextn_number[OF _ p4, where ?num0.0 = 0]
    by (simp add: seven_buffers_def)
  show ?thesis by (intro conjI 1 2 3 4)
qed

text \<open>
  C7 fails for a named extension of the standard input when the URL is the one that
  the comment of \<^verbatim>\<open>ffextn\<close> gives for the standard input, \<^verbatim>\<open>-\<close>, or \<^verbatim>\<open>stdin://\<close> with no
  name behind it.  For \<^verbatim>\<open>-[EVENTS]\<close> the name of the file is empty, so the search for
  the last \<^verbatim>\<open>+\<close> in \<^verbatim>\<open>ffiurl\<close> ends with \<open>ii = - 1\<close>.  This passes the test
  \<^verbatim>\<open>ii != 0 && (jj - ii) < 5\<close>, and no character is left to be tested for a digit, so
  the code sets \<^verbatim>\<open>plus_ext\<close> and stores a NUL at \<^verbatim>\<open>infile[-1]\<close>, in front of the block it
  has allocated.  The call has no defined result, and \<^verbatim>\<open>ffextn\<close> does not return
  \<^verbatim>\<open>URL_PARSE_ERROR\<close>.  With \<^verbatim>\<open>plus_ext\<close> set, the text from the first \<^verbatim>\<open>[\<close> on is taken
  as the filter and the extension specification stays empty, which is the case in
  which \<^verbatim>\<open>ffextn\<close> returns the number -99.
\<close>

theorem ffextn_stdin_named_extension:
  "ffiurl ''-[EVENTS]'' seven_buffers True 0 = Inl Out_of_bounds_write \<and>
   ffextn sample_collaborators ''-[EVENTS]'' 7 0 sample_world = Some (Inl Out_of_bounds_write) \<and>
   ffiurl ''stdin://[EVENTS]'' seven_buffers True 0 = Inl Out_of_bounds_write \<and>
   ffextn sample_collaborators ''stdin://[EVENTS]'' 7 0 sample_world =
     Some (Inl Out_of_bounds_write) \<and>
   url_prefix ''-[EVENTS]'' = (''stdin://'', ''[EVENTS]'') \<and>
   input_names ''[EVENTS]'' = Some ([], None) \<and>
   search_backwards CHR ''+'' [] 0 = - 1 \<and>
   plus_extension [] (- 1) \<and>
   bracket_extension True ''[EVENTS]'' (Some []) = Some (''[EVENTS]'', Some [])"
proof -
  have ok: "alloc_succeeds sample_world"
    by (simp add: alloc_succeeds_def sample_world_def initial_world_def)
  have 1: "ffiurl ''-[EVENTS]'' seven_buffers True 0 = Inl Out_of_bounds_write"
    by code_simp
  have 2: "ffextn sample_collaborators ''-[EVENTS]'' 7 0 sample_world =
             Some (Inl Out_of_bounds_write)"
    by (simp add: ffextn_def parse_url_def ok 1)
  have 3: "ffiurl ''stdin://[EVENTS]'' seven_buffers True 0 = Inl Out_of_bounds_write"
    by code_simp
  have 4: "ffextn sample_collaborators ''stdin://[EVENTS]'' 7 0 sample_world =
             Some (Inl Out_of_bounds_write)"
    by (simp add: ffextn_def parse_url_def ok 3)
  have 5: "url_prefix ''-[EVENTS]'' = (''stdin://'', ''[EVENTS]'')" by code_simp
  have 6: "input_names ''[EVENTS]'' = Some ([], None)" by code_simp
  have 7: "search_backwards CHR ''+'' [] 0 = - 1" by simp
  have 8: "plus_extension [] (- 1)" by (simp add: plus_extension_def)
  have 9: "bracket_extension True ''[EVENTS]'' (Some []) = Some (''[EVENTS]'', Some [])"
    by code_simp
  show ?thesis by (intro conjI 1 2 3 4 5 6 7 8 9)
qed

subsection \<open>The binning specification\<close>

lemmas ffbins_eval =
  ffbins_def axes_loop.simps names_loop.simps ffbinr_def fits_get_token_def strcspn_def
  getweight_def skip_blanks_def nth_char_def isdigit_def axis_of_def set_axis_def
  column_name_def copy_first_axis_def Let_def

text \<open>
  The specification \<open>bin 4\<close>: one number, no column, no minimum and no maximum.  The
  minimum and the maximum were set to \<^verbatim>\<open>DOUBLENULLVALUE\<close>, and the test for the special
  case compares them with \<^verbatim>\<open>FLOATNULLVALUE\<close>.
\<close>

lemma ffbins_bin_4:
  assumes "status \<le> 0"
  shows "ffbins fp ''bin 4'' out junk status =
     Inr (status,
       \<lparr>imagetype = TINT,
        haxis = (if DOUBLENULLVALUE fp = FLOATNULLVALUE fp then 2 else 1),
        colname = [[], [], [], []],
        minin = replicate 4 (DOUBLENULLVALUE fp),
        maxin = replicate 4 (DOUBLENULLVALUE fp),
        binsizein =
          (if DOUBLENULLVALUE fp = FLOATNULLVALUE fp
           then [strtod fp ''4'', strtod fp ''4'', DOUBLENULLVALUE fp, DOUBLENULLVALUE fp]
           else [strtod fp ''4'', DOUBLENULLVALUE fp, DOUBLENULLVALUE fp, DOUBLENULLVALUE fp]),
        minname = [[], [], [], []], maxname = [[], [], [], []], binname = [[], [], [], []],
        weight = one fp, wtname = [], recip = 0\<rparr>)"
  using assms by (simp add: ffbins_eval eval_nat_numeral)

text \<open>
  C5.  The claim is that \<open>bin 4\<close> gives 2 axes, the second with the bin size of the
  first.  When the two macros for an undefined value are different values of type
  \<^verbatim>\<open>double\<close>, \<^verbatim>\<open>ffbins\<close> returns 1 axis for \<open>bin 4\<close>, and the bin size of the second
  axis stays undefined.
\<close>

theorem ffbins_single_number_one_axis:
  assumes "FLOATNULLVALUE fp \<noteq> DOUBLENULLVALUE fp" "status \<le> 0"
  shows "\<exists>b. ffbins fp ''bin 4'' out junk status = Inr (status, b) \<and> haxis b = 1 \<and>
             binsizein b ! 0 = strtod fp ''4'' \<and> binsizein b ! 1 = DOUBLENULLVALUE fp"
  using assms by (simp add: ffbins_bin_4)

text \<open>
  With the texts of the two macros for the two values (they are different numbers),
  \<open>bin 4\<close> has 1 axis.
\<close>

theorem ffbins_single_number_one_axis_witness:
  "\<exists>b. ffbins sample_floating ''bin 4'' (no_binning sample_floating) (\<lambda>_. False) 0 = Inr (0, b) \<and>
        haxis b = 1 \<and> binsizein b ! 0 = ''4'' \<and> binsizein b ! 1 = ''-9.1191291391491E-36''"
  using ffbins_single_number_one_axis
          [of sample_floating 0 "no_binning sample_floating" "\<lambda>_. False"]
  by (simp add: sample_floating_def)

text \<open>When the two macros are the same value, \<open>bin 4\<close> is read as the claim says.\<close>

lemma ffbins_single_number_two_axes:
  assumes "FLOATNULLVALUE fp = DOUBLENULLVALUE fp" "status \<le> 0"
  shows "\<exists>b. ffbins fp ''bin 4'' out junk status = Inr (status, b) \<and> haxis b = 2 \<and>
             binsizein b ! 0 = strtod fp ''4'' \<and> binsizein b ! 1 = binsizein b ! 0"
  using assms by (simp add: ffbins_bin_4)

text \<open>
  C6.  The claim is that the flag for the reciprocal is 1 when a \<^verbatim>\<open>/\<close> stands in front
  of the weight.  For a specification of one column \<open>x\<close> and a weight clause that
  starts with \<^verbatim>\<open>/\<close>, whatever follows, \<^verbatim>\<open>ffbins\<close> stores through the null pointer that
  \<^verbatim>\<open>recip = 0\<close> has made of its parameter: there is no result.
\<close>

theorem ffbins_reciprocal_weight:
  "ffbins fp (''bin x;/'' @ t) out junk 0 = Inl Null_pointer_write"
  by (simp add: ffbins_eval eval_nat_numeral)

text \<open>
  Without the \<^verbatim>\<open>/\<close> the flag is 0, a weight that is a number is stored as the weight
  and a weight that is not is stored as the name of the weight.
\<close>

lemma ffbins_weight_name:
  "\<exists>b. ffbins fp ''bin x;w'' out junk 0 = Inr (0, b) \<and> recip b = 0 \<and> wtname b = ''w'' \<and>
        weight b = one fp"
  by (simp add: ffbins_eval eval_nat_numeral)

lemma ffbins_weight_number:
  "\<exists>b. ffbins fp ''bin x; 2.5'' out junk 0 = Inr (0, b) \<and> recip b = 0 \<and> wtname b = [] \<and>
        weight b = strtod fp ''2.5''"
  by (simp add: ffbins_eval eval_nat_numeral)

subsection \<open>The status on entry\<close>

lemmas world_eval =
  sample_world_def initial_world_def sample_collaborators_def disk_functions_def
  memory_functions_def no_functions_def zero_driver_def driver_functions.extend_def
  MAX_DRIVERS_def

lemma ffopen_t_fits:
  "ffopen sample_collaborators None ''t.fits'' READONLY 0 sample_world =
     Some (Inr ((0, Some 1), one_open_file))"
  by (simp add: ffopen_def parse_url_def ffiurl_eval world_eval one_open_file_def
        skip_blanks_def alloc_succeeds_def alloc_done_def READONLY_def reuse_scan.simps
        open_new_def urltype2driver_def urltype2driver_loop.simps allocate_structures_def
        calloc_fitsfile_def calloc_FITSfile_def outside_def move2hdu_def move_to_extension_def
        bin_table_def zero_FITSfile_def REPORT_EOF_def DATA_UNDEFINED_def VALIDSTRUC_def
        ffiurl_copies_def filter_copies_def MAX_PREFIX_LEN_def numeral_2_eq_2 numeral_3_eq_3)





subsection \<open>The count of the handles of a file\<close>

text \<open>
  \<^verbatim>\<open>ffreopen\<close> adds one to the count and \<^verbatim>\<open>ffclos\<close> takes one off; the driver closes the
  file and the memory is freed in the call of \<^verbatim>\<open>ffclos\<close> that finds the count 1.
\<close>

lemma ffreopen_open_count:
  assumes "shared_file w h = Inr (a, F)" "validcode F = VALIDSTRUC" "status \<le> 0"
    "alloc_succeeds w"
  shows "\<exists>w'. ffreopen (Some h) p status w = Inr ((status, Some (next_address w)), w') \<and>
           fitsfiles w' (next_address w) = Some \<lparr>Fptr = a, HDUposition = 0\<rparr> \<and>
           FITSfiles w' a = Some (F\<lparr>open_count := open_count F + 1\<rparr>) \<and>
           events w' = events w"
  using assms by (simp add: ffreopen_def calloc_fitsfile_def alloc_done_def)

lemma ffclos_open_count:
  assumes "shared_file w h = Inr (a, F)" "validcode F = VALIDSTRUC" "open_count F \<noteq> 1"
  shows "\<exists>st w'. ffclos env (Some h) status w = Inr (st, w') \<and>
           FITSfiles w' a = Some (F\<lparr>open_count := open_count F - 1\<rparr>) \<and>
           fitsfiles w' = fitsfiles w \<and> events w' = events w"
  using assms by (simp add: ffclos_def outside_def Let_def split: prod.splits)

lemma ffclos_last_handle:
  assumes "shared_file w h = Inr (a, F)" "validcode F = VALIDSTRUC" "open_count F = 1"
    "0 \<le> driver F" "driver F < int (length (driverTable w))"
    "close (driverTable w ! nat (driver F)) = Some f"
  shows "\<exists>st w'. ffclos env (Some h) status w = Inr (st, w') \<and>
           FITSfiles w' a = None \<and> fitsfiles w' h = None \<and>
           events w' = events w @ [Driver_close (driver F) (filehandle F), Free_filename a,
                                   Poison_validcode a, Free_FITSfile a, Free_fitsfile h]"
  using assms
  by (simp add: ffclos_def outside_def driver_close_def free_fitsfile_def free_FITSfile_def
        Let_def split: prod.splits)

text \<open>The parts of the evaluation below that do not depend on the state.\<close>

lemma ffiurl_filtered:
  "ffiurl ''t.fits[1][x>0]'' seven_buffers True 0 =
     Inr (0, \<lparr>urltype = Some ''file://'', infile = Some ''t.fits'', outfile = Some [],
              extspec = Some ''1'', rowfilter = Some ''[x>0]'', binspec = Some [],
              colspec = Some []\<rparr>)"
  by code_simp

lemma ffiurl_copies_filtered:
  "url_prefix ''t.fits[1][x>0]'' = (''file://'', ''t.fits[1][x>0]'')"
  "ffiurl_copies ''t.fits[1][x>0]'' = [''t.fits'', ''1'', ''[x>0]'']"
  by code_simp+

lemma ffourl_mem: "ffourl ''mem://'' ([], []) 0 = (0, ''mem://'', [])"
  by code_simp

lemma ffexts_1:
  "ffexts ''1'' 0 = Inr (0, \<lparr>extnum = 1, extname = [], extvers = 0, hdutype = ANY_HDU\<rparr>)"
  by code_simp

text \<open>
  C1 fails for a file that is opened with a row filter.  The call
  \<^verbatim>\<open>ffopen(&fptr, "t.fits[1][x>0]", READONLY, &status)\<close> returns the status 0 and a handle
  whose structure, made by \<^verbatim>\<open>ffinit\<close> in \<^verbatim>\<open>ffselect_table\<close>, is valid and has the count 0
  after this one successful open.  The call of \<^verbatim>\<open>ffclos\<close> for this handle returns 0
  and makes the count \<open>- 1\<close>: the driver does not close the file, nothing is freed and
  the validity code stays.
\<close>

theorem ffopen_row_filter_open_count:
  "\<exists>w1 w2.
     ffopen sample_collaborators None ''t.fits[1][x>0]'' READONLY 0 sample_world =
       Some (Inr ((0, Some 3), w1)) \<and>
     shared_file w1 3 =
       Inr (4, \<lparr>filehandle = 4, driver = 1, filename = Some ''mem://'', filesize = 0,
                logfilesize = 0, writemode = 1, datastart = - 1, curbuf = - 1,
                open_count = 0, validcode = 555\<rparr>) \<and>
     ffclos sample_collaborators (Some 3) 0 w1 = Inr (0, w2) \<and>
     shared_file w2 3 =
       Inr (4, \<lparr>filehandle = 4, driver = 1, filename = Some ''mem://'', filesize = 0,
                logfilesize = 0, writemode = 1, datastart = - 1, curbuf = - 1,
                open_count = - 1, validcode = 555\<rparr>) \<and>
     events w2 = events w1"
  by (simp add: ffopen_def parse_url_def ffiurl_filtered ffourl_mem ffexts_1 world_eval
        skip_blanks_def alloc_succeeds_def alloc_done_def READONLY_def reuse_scan.simps
        open_new_def urltype2driver_def urltype2driver_loop.simps allocate_structures_def
        calloc_fitsfile_def calloc_FITSfile_def outside_def move2hdu_def move_to_extension_def
        bin_table_def zero_FITSfile_def REPORT_EOF_def IGNORE_EOF_def DATA_UNDEFINED_def
        VALIDSTRUC_def TRUE_def END_OF_FILE_def nth_char_def
        ffselect_table_def ffinit_def copy_preceding.simps copy_following.simps
        close_new_file_def replace_by_new_file_def ffclos_def shared_file_def
        driver_close_def free_fitsfile_def free_FITSfile_def Let_def
        ffiurl_copies_filtered MAX_PREFIX_LEN_def numeral_2_eq_2 numeral_3_eq_3)

end
